theory Spec2Isabelle
  imports Complex_Main "HOL-Library.Word"
begin

section \<open>Machine types, strings and diagnostics\<close>

text \<open>
  The model follows \<^verbatim>\<open>src/Etaler/Backends/OpenCLBackend.cpp\<close>.
  \<^verbatim>\<open>size_t\<close> is the 64-bit unsigned integer of the LP64 targets the backend is
  built for: arithmetic wraps around. \<^verbatim>\<open>cl_int\<close> is a signed status code that the
  source only compares with \<^verbatim>\<open>CL_SUCCESS\<close> and prints, so it is an integer.
\<close>

type_synonym size_t = "64 word"
type_synonym cl_int = int

abbreviation CL_SUCCESS :: cl_int where
  "CL_SUCCESS \<equiv> 0"

text \<open>
  Every \<^verbatim>\<open>throw EtError(msg)\<close> of the source is \<open>EtError msg\<close>.
  Modelled from the spec: \<^verbatim>\<open>et_assert\<close> (a macro defined outside the source file)
  raises when its condition fails, which is \<open>AssertionFailure\<close>; a kernel lookup that
  finds nothing is fatal, which is \<open>OutOfRange\<close>; a device allocation that is rejected
  raises, which is \<open>AllocationError\<close> with the device's status. The two places where C++
  leaves the behaviour undefined (\<^verbatim>\<open>back()\<close> of an empty shape, division by zero)
  are \<open>UndefinedBehaviour\<close>.
\<close>

datatype error =
    EtError string
  | AssertionFailure
  | OutOfRange
  | AllocationError cl_int
  | UndefinedBehaviour

text \<open>\<^verbatim>\<open>std::to_string\<close> on unsigned and signed integers: decimal, no padding.\<close>

fun dec_digits :: "nat \<Rightarrow> string" where
  "dec_digits n =
     (if n < 10 then [''0123456789'' ! n]
      else dec_digits (n div 10) @ [''0123456789'' ! (n mod 10)])"

declare dec_digits.simps [simp del]

definition to_string :: "int \<Rightarrow> string" where
  "to_string i = (if i < 0 then ''-'' @ dec_digits (nat (- i)) else dec_digits (nat i))"

definition to_string_size_t :: "size_t \<Rightarrow> string" where
  "to_string_size_t v = dec_digits (unat v)"

text \<open>\<^verbatim>\<open>std::to_string(bool)\<close> promotes its argument to \<^verbatim>\<open>int\<close>.\<close>

definition to_string_bool :: "bool \<Rightarrow> string" where
  "to_string_bool b = to_string (if b then 1 else 0)"

text \<open>\<^verbatim>\<open>ss << std::hex << hash\<close>: lower-case hexadecimal, no prefix, no padding.\<close>

fun hex_digits :: "nat \<Rightarrow> string" where
  "hex_digits n =
     (if n < 16 then [''0123456789abcdef'' ! n]
      else hex_digits (n div 16) @ [''0123456789abcdef'' ! (n mod 16)])"

declare hex_digits.simps [simp del]

section \<open>Data model\<close>

text \<open>
  The declarations of \<^verbatim>\<open>OpenCLBackend.hpp\<close> and of the tensor core are not part of the
  source file; the types below are read off the way the source file uses them.
  \<open>DType\<close> has the four values the source names. A \<open>Shape\<close> is the vector of
  dimension sizes.
\<close>

datatype DType = Unknown | Bool | Int32 | Float

type_synonym Shape = "size_t list"

text \<open>
  Modelled from the spec: \<^verbatim>\<open>Shape::volume\<close> (declared outside the source file) is the
  product of the dimension sizes, computed in \<^verbatim>\<open>size_t\<close>.
\<close>

definition volume :: "Shape \<Rightarrow> size_t" where
  "volume shp = foldl (\<lambda>val d. val * d) 1 shp"

text \<open>
  A compiled \<^verbatim>\<open>cl::Program\<close> is identified by the number of the device build that
  produced it, together with the sources and flags it was built from. A
  \<^verbatim>\<open>cl::Kernel\<close> is an entry point of a program.
\<close>

record Program =
  prog_id :: nat
  prog_sources :: "string list"
  prog_flags :: string

record Kernel =
  kernel_program :: Program
  kernel_name :: string

text \<open>
  \<^verbatim>\<open>KernelManager::Application\<close> holds the map \<^verbatim>\<open>kernels\<close>; the manager holds the
  map \<^verbatim>\<open>apps_\<close>. The field \<open>builds\<close> is the history of the device: the programs
  handed to \<^verbatim>\<open>cl::Program::build\<close> so far, oldest first.
\<close>

record Application =
  kernels :: "string \<rightharpoonup> Kernel"

record KernelManager =
  apps :: "string \<rightharpoonup> Application"
  builds :: "Program list"

text \<open>
  An \<^verbatim>\<open>OpenCLTensor\<close> object: shape, element type and the device buffer (the index of
  the buffer among the buffers of the backend).
\<close>

record OpenCLTensor =
  shape :: Shape
  dtype :: DType
  buffer :: nat

record Command =
  cmd_kernel :: Kernel
  global_size :: size_t
  local_size :: size_t

text \<open>
  The state of the backend. \<open>buffers\<close> lists the byte size of every device buffer
  allocated so far (a buffer is named by its position; positions are never reused).
  \<open>tensors\<close> is the heap of \<^verbatim>\<open>OpenCLTensor\<close> objects: a \<^verbatim>\<open>TensorImpl*\<close> is a
  position in it, and a pointer outside it does not point to an \<^verbatim>\<open>OpenCLTensor\<close>.
  \<open>queue\<close> is the command queue: the kernel launches the device accepted, oldest first.
  Buffer contents, kernel arguments (\<^verbatim>\<open>setArg\<close>) and the destruction of tensors are
  not modelled: the kernels are opaque device programs.
\<close>

record OpenCLBackend =
  kernel_manager :: KernelManager
  kernel_root :: string
  buffers :: "size_t list"
  tensors :: "OpenCLTensor list"
  queue :: "Command list"

text \<open>
  Everything the source file takes from outside: the OpenCL device, the file system, the
  standard library's string hash, and the two helpers of the tensor core declared outside the
  source file (\<^verbatim>\<open>dtypeToSize\<close>, \<^verbatim>\<open>to_ctype_string\<close>). Each is a parameter of the
  model; the theorems hold for every value of it.
\<close>

record Env =
  std_hash :: "string \<Rightarrow> size_t"
  files :: "string \<rightharpoonup> string"
  strerror_errno :: "string \<Rightarrow> string"
  build_status :: "string list \<Rightarrow> string \<Rightarrow> cl_int"
  build_info :: "string list \<Rightarrow> string \<Rightarrow> string"
  kernel_status :: "Program \<Rightarrow> string \<Rightarrow> cl_int"
  enqueue_status :: "Kernel \<Rightarrow> size_t \<Rightarrow> size_t \<Rightarrow> cl_int"
  alloc_status :: "size_t \<Rightarrow> cl_int"
  map_status :: "nat \<Rightarrow> size_t \<Rightarrow> cl_int"
  unmap_status :: "nat \<Rightarrow> cl_int"
  copy_status :: "nat \<Rightarrow> nat \<Rightarrow> size_t \<Rightarrow> cl_int"
  dtypeToSize :: "DType \<Rightarrow> size_t"
  to_ctype_string :: "DType \<Rightarrow> string"

section \<open>Helper functions\<close>

text \<open>
  \<^verbatim>\<open>readAll\<close> (lines 10-18): the whole file, or an error naming the path and the
  reason the operating system gives.
\<close>

definition readAll :: "Env \<Rightarrow> string \<Rightarrow> error + string" where
  "readAll env path =
     (case files env path of
        None \<Rightarrow> Inl (EtError (''Cannot open file '' @ path @ ''. '' @ strerror_errno env path))
      | Some str \<Rightarrow> Inr str)"

text \<open>
  \<^verbatim>\<open>selectWorkSize\<close> (lines 20-24). The lambda \<^verbatim>\<open>round\<close> is \<open>round_up\<close>; all
  arithmetic is \<^verbatim>\<open>size_t\<close> arithmetic. Division by \<^verbatim>\<open>mul_of = 0\<close> is undefined in
  C++: the model returns \<open>None\<close> there.
\<close>

definition round_up :: "size_t \<Rightarrow> size_t \<Rightarrow> size_t" where
  "round_up mul_of v = ((v div mul_of) * mul_of) + (if v mod mul_of = 0 then 0 else mul_of)"

definition selectWorkSize :: "size_t \<Rightarrow> size_t \<Rightarrow> size_t \<Rightarrow> size_t option" where
  "selectWorkSize max_sz mul_of sz =
     (if mul_of = 0 then None else Some (min max_sz (round_up mul_of sz)))"

text \<open>\<^verbatim>\<open>hash_string\<close> (lines 26-32).\<close>

definition hash_string :: "Env \<Rightarrow> string \<Rightarrow> string" where
  "hash_string env str = hex_digits (unat (std_hash env str))"

section \<open>KernelManager\<close>

text \<open>
  \<^verbatim>\<open>apps_[program_name]\<close>: \<^verbatim>\<open>std::map::operator[]\<close> yields the entry, a
  default-constructed one when the key is new.
\<close>

definition app_at :: "KernelManager \<Rightarrow> string \<Rightarrow> Application" where
  "app_at km program_name =
     (case apps km program_name of None \<Rightarrow> \<lparr>kernels = Map.empty\<rparr> | Some app \<Rightarrow> app)"

text \<open>
  The loop of lines 149-155 over \<^verbatim>\<open>kernel_names\<close>: \<^verbatim>\<open>app\<close> refers to the entry of
  \<^verbatim>\<open>apps_\<close>, so each assignment to \<^verbatim>\<open>app.kernels[name]\<close> updates the manager.
\<close>

fun resolve_kernels ::
  "Env \<Rightarrow> Program \<Rightarrow> string \<Rightarrow> string list \<Rightarrow> KernelManager \<Rightarrow> (error + unit) \<times> KernelManager"
where
  "resolve_kernels env program program_name [] km = (Inr (), km)"
| "resolve_kernels env program program_name (name # names) km =
     (if kernel_status env program name \<noteq> CL_SUCCESS
      then (Inl (EtError (''Kernel '' @ name @ '' not found in program '' @ program_name)), km)
      else resolve_kernels env program program_name names
             (km\<lparr>apps := (apps km)(program_name \<mapsto>
                    (app_at km program_name)\<lparr>kernels :=
                       (kernels (app_at km program_name))(name \<mapsto>
                          \<lparr>kernel_program = program, kernel_name = name\<rparr>)\<rparr>)\<rparr>))"

text \<open>
  \<^verbatim>\<open>KernelManager::compileKernel\<close>, the overload on a vector of sources (lines
  132-156). The result pairs what the call returns or throws with the manager it leaves
  behind.
\<close>

definition compileKernel ::
  "Env \<Rightarrow> string list \<Rightarrow> string \<Rightarrow> string list \<Rightarrow> bool \<Rightarrow> string \<Rightarrow> KernelManager
     \<Rightarrow> (error + unit) \<times> KernelManager"
where
  "compileKernel env srcs program_name kernel_names force_override flags km =
     (if apps km program_name \<noteq> None \<and> force_override = False then (Inr (), km)
      else
        let program = \<lparr>prog_id = length (builds km), prog_sources = srcs, prog_flags = flags\<rparr>;
            err = build_status env srcs flags;
            km1 = km\<lparr>builds := builds km @ [program]\<rparr>
        in if err \<noteq> CL_SUCCESS
           then (Inl (EtError (''Error building OpenCL program: '' @ program_name
                        @ '', Error:'' @ to_string err @ [CHR 0x0A] @ build_info env srcs flags)), km1)
           else resolve_kernels env program program_name kernel_names
                  (km1\<lparr>apps := (apps km1)(program_name \<mapsto> app_at km1 program_name)\<rparr>))"

text \<open>The loop of \<^verbatim>\<open>compileFromFile\<close> reading every path (lines 167-169).\<close>

fun read_sources :: "Env \<Rightarrow> string list \<Rightarrow> error + string list" where
  "read_sources env [] = Inr []"
| "read_sources env (path # paths) =
     (case readAll env path of
        Inl e \<Rightarrow> Inl e
      | Inr str \<Rightarrow>
          (case read_sources env paths of
             Inl e \<Rightarrow> Inl e
           | Inr sources \<Rightarrow> Inr (str # sources)))"

text \<open>\<^verbatim>\<open>KernelManager::compileFromFile\<close> (lines 164-171).\<close>

definition compileFromFile ::
  "Env \<Rightarrow> string list \<Rightarrow> string \<Rightarrow> string list \<Rightarrow> bool \<Rightarrow> string \<Rightarrow> KernelManager
     \<Rightarrow> (error + unit) \<times> KernelManager"
where
  "compileFromFile env paths program_name kernel_names force_override flags km =
     (case read_sources env paths of
        Inl e \<Rightarrow> (Inl e, km)
      | Inr sources \<Rightarrow> compileKernel env sources program_name kernel_names force_override flags km)"

text \<open>
  Modelled from the spec: \<^verbatim>\<open>KernelManager::kernel\<close> (declared outside the source
  file) looks a kernel up by program name and entry-point name; \<open>None\<close> when either is
  absent.
\<close>

definition kernel :: "KernelManager \<Rightarrow> string \<Rightarrow> string \<Rightarrow> Kernel option" where
  "kernel km program_name kname =
     (case apps km program_name of None \<Rightarrow> None | Some app \<Rightarrow> kernels app kname)"

section \<open>Buffers and tensors\<close>

text \<open>
  Modelled from the spec: \<^verbatim>\<open>points_to<OpenCLTensor>(p)\<close> (a template defined outside
  the source file) holds when the pointer refers to an \<^verbatim>\<open>OpenCLTensor\<close>, a tensor
  owned by this backend.
\<close>

definition points_to :: "OpenCLBackend \<Rightarrow> nat \<Rightarrow> bool" where
  "points_to s p = (p < length (tensors s))"

text \<open>
  Modelled from the spec: \<^verbatim>\<open>TensorImpl::size\<close> (declared outside the source file) is
  the number of elements, the volume of the shape.
\<close>

definition tensor_size :: "OpenCLTensor \<Rightarrow> size_t" where
  "tensor_size t = volume (shape t)"

text \<open>
  Modelled from the spec: \<^verbatim>\<open>allocBuffer\<close> (declared outside the source file) allocates
  a new device buffer of the given byte size, or raises when the device rejects the size.
\<close>

definition allocBuffer :: "Env \<Rightarrow> size_t \<Rightarrow> OpenCLBackend \<Rightarrow> (error + nat) \<times> OpenCLBackend" where
  "allocBuffer env sz s =
     (if alloc_status env sz \<noteq> CL_SUCCESS then (Inl (AllocationError (alloc_status env sz)), s)
      else (Inr (length (buffers s)), s\<lparr>buffers := buffers s @ [sz]\<rparr>))"

text \<open>
  \<^verbatim>\<open>new OpenCLTensor(shape, dtype, buf, ...)\<close> wrapped in a shared pointer: the new
  object is appended to the heap and its position returned.
\<close>

definition new_tensor :: "Shape \<Rightarrow> DType \<Rightarrow> nat \<Rightarrow> OpenCLBackend \<Rightarrow> (error + nat) \<times> OpenCLBackend" where
  "new_tensor shp dt buf s =
     (Inr (length (tensors s)),
      s\<lparr>tensors := tensors s @ [\<lparr>shape = shp, dtype = dt, buffer = buf\<rparr>]\<rparr>)"

text \<open>
  \<^verbatim>\<open>OpenCLBackend::createTensor\<close> (lines 65-84). \<open>has_data\<close> is
  \<^verbatim>\<open>data != nullptr\<close>; the bytes copied into the buffer are not modelled.
\<close>

definition createTensor ::
  "Env \<Rightarrow> Shape \<Rightarrow> DType \<Rightarrow> bool \<Rightarrow> OpenCLBackend \<Rightarrow> (error + nat) \<times> OpenCLBackend"
where
  "createTensor env shp dt has_data s =
     (if \<not> (dt \<noteq> Unknown) then (Inl AssertionFailure, s)
      else
        let buf_size = volume shp * dtypeToSize env dt in
        case allocBuffer env buf_size s of
          (Inl e, s1) \<Rightarrow> (Inl e, s1)
        | (Inr buf, s1) \<Rightarrow>
            if has_data \<and> map_status env buf buf_size \<noteq> CL_SUCCESS
            then (Inl (EtError (''OpenCL buffer map failed. Error: ''
                         @ to_string (map_status env buf buf_size)
                         @ '', map size '' @ to_string_size_t buf_size)), s1)
            else if has_data \<and> unmap_status env buf \<noteq> CL_SUCCESS
            then (Inl (EtError (''OpenCL buffer write failed. Error: ''
                         @ to_string (unmap_status env buf)
                         @ '', write size '' @ to_string_size_t buf_size)), s1)
            else new_tensor shp dt buf s1)"

text \<open>\<^verbatim>\<open>OpenCLBackend::copy\<close> (lines 272-284).\<close>

definition copy :: "Env \<Rightarrow> nat \<Rightarrow> OpenCLBackend \<Rightarrow> (error + nat) \<times> OpenCLBackend" where
  "copy env x s =
     (if \<not> points_to s x then (Inl AssertionFailure, s)
      else
        let tx = tensors s ! x;
            buf_size = tensor_size tx * dtypeToSize env (dtype tx)
        in case allocBuffer env buf_size s of
             (Inl e, s1) \<Rightarrow> (Inl e, s1)
           | (Inr buf, s1) \<Rightarrow>
               if copy_status env (buffer tx) buf buf_size \<noteq> CL_SUCCESS
               then (Inl (EtError (''Data copy enqueuing failed. Error ''
                            @ to_string (copy_status env (buffer tx) buf buf_size))), s1)
               else new_tensor (shape tx) (dtype tx) buf s1)"

section \<open>Dispatching kernels\<close>

text \<open>
  \<^verbatim>\<open>queue_.enqueueNDRangeKernel(k, cl::NullRange, cl::NDRange(g), cl::NDRange(l))\<close>:
  the device answers with a status; an accepted launch joins the queue.
\<close>

definition enqueueNDRangeKernel ::
  "Env \<Rightarrow> Kernel \<Rightarrow> size_t \<Rightarrow> size_t \<Rightarrow> OpenCLBackend \<Rightarrow> cl_int \<times> OpenCLBackend"
where
  "enqueueNDRangeKernel env k g l s =
     (let err = enqueue_status env k g l
      in (err, if err = CL_SUCCESS
               then s\<lparr>queue := queue s @ [\<lparr>cmd_kernel = k, global_size = g, local_size = l\<rparr>]\<rparr>
               else s))"

text \<open>
  The flag strings and program names the five operations build (lines 190-192, 223-225,
  250-252, 302-304, 333-335), each as a function of the values it is built from.
\<close>

definition overlapScore_args :: "size_t \<Rightarrow> size_t \<Rightarrow> bool \<Rightarrow> string" where
  "overlapScore_args x_size max_synapse has_unconnected_synapse =
     ''-DINPUT_SIZE='' @ to_string_size_t x_size
     @ '' -DMAX_SYNAPSE_PER_CELL='' @ to_string_size_t max_synapse
     @ '' -DNO_UNUSED_SYNAPSE='' @ to_string_bool (\<not> has_unconnected_synapse)"

definition overlapScore_program_name :: "Env \<Rightarrow> size_t \<Rightarrow> size_t \<Rightarrow> bool \<Rightarrow> string" where
  "overlapScore_program_name env x_size max_synapse has_unconnected_synapse =
     ''overlapScore'' @ hash_string env (overlapScore_args x_size max_synapse has_unconnected_synapse)"

definition globalInhibition_args :: "size_t \<Rightarrow> string" where
  "globalInhibition_args x_size =
     ''-DINPUT_SIZE='' @ to_string_size_t x_size @ '' -DMAX_INPUT_VALUE='' @ to_string 2000"

definition globalInhibition_program_name :: "Env \<Rightarrow> size_t \<Rightarrow> string" where
  "globalInhibition_program_name env x_size =
     ''overlapScore'' @ hash_string env (globalInhibition_args x_size)"

definition cast_args :: "Env \<Rightarrow> DType \<Rightarrow> DType \<Rightarrow> string" where
  "cast_args env from_type to_type =
     ''-DInType='' @ to_ctype_string env from_type @ '' -DOutType='' @ to_ctype_string env to_type"

definition cast_program_name :: "Env \<Rightarrow> DType \<Rightarrow> DType \<Rightarrow> string" where
  "cast_program_name env from_type to_type = ''cast'' @ hash_string env (cast_args env from_type to_type)"

definition learnCorrilation_args :: "size_t \<Rightarrow> size_t \<Rightarrow> string" where
  "learnCorrilation_args x_size max_synapse =
     ''-DINPUT_SIZE='' @ to_string_size_t x_size
     @ '' -DMAX_SYNAPSE_PER_CELL='' @ to_string_size_t max_synapse
     @ '' -DNO_UNUSED_SYNAPSE=true''"

definition learnCorrilation_program_name :: "Env \<Rightarrow> size_t \<Rightarrow> size_t \<Rightarrow> string" where
  "learnCorrilation_program_name env x_size max_synapse =
     ''learnCorrilation'' @ hash_string env (learnCorrilation_args x_size max_synapse)"

definition sortSynapse_args :: "size_t \<Rightarrow> string" where
  "sortSynapse_args max_synapse = ''-DMAX_SYNAPSE_PER_CELL='' @ to_string_size_t max_synapse"

definition sortSynapse_program_name :: "Env \<Rightarrow> size_t \<Rightarrow> string" where
  "sortSynapse_program_name env max_synapse =
     ''sortSynapse'' @ hash_string env (sortSynapse_args max_synapse)"

text \<open>
  \<^verbatim>\<open>OpenCLBackend::overlapScore\<close> (lines 174-210). The assertions all raise the same
  error before anything else happens, so they are one condition, in the order of the source.
  \<^verbatim>\<open>connected_permeance\<close> and \<^verbatim>\<open>active_threshold\<close> are only bound as kernel
  arguments and do not appear.
\<close>

definition overlapScore ::
  "Env \<Rightarrow> nat \<Rightarrow> nat \<Rightarrow> nat \<Rightarrow> nat \<Rightarrow> bool \<Rightarrow> OpenCLBackend \<Rightarrow> (error + unit) \<times> OpenCLBackend"
where
  "overlapScore env x connections permeances y has_unconnected_synapse s =
     (if \<not> (points_to s x \<and> points_to s connections \<and> points_to s permeances \<and> points_to s y
             \<and> dtype (tensors s ! x) = Bool
             \<and> dtype (tensors s ! connections) = Int32
             \<and> dtype (tensors s ! permeances) = Float
             \<and> dtype (tensors s ! y) = Int32
             \<and> shape (tensors s ! connections) = shape (tensors s ! permeances))
      then (Inl AssertionFailure, s)
      else if shape (tensors s ! connections) = [] then (Inl UndefinedBehaviour, s)
      else
        let x_size = tensor_size (tensors s ! x);
            max_synapse = last (shape (tensors s ! connections));
            args = overlapScore_args x_size max_synapse has_unconnected_synapse;
            program_name = overlapScore_program_name env x_size max_synapse has_unconnected_synapse
        in case compileFromFile env [kernel_root s @ ''overlapScore.cl''] program_name
                  [''overlapScore''] False args (kernel_manager s) of
             (Inl e, km) \<Rightarrow> (Inl e, s\<lparr>kernel_manager := km\<rparr>)
           | (Inr _, km) \<Rightarrow>
               (case kernel km program_name ''overlapScore'' of
                  None \<Rightarrow> (Inl OutOfRange, s\<lparr>kernel_manager := km\<rparr>)
                | Some k \<Rightarrow>
                    (case selectWorkSize 8152 64 x_size of
                       None \<Rightarrow> (Inl UndefinedBehaviour, s\<lparr>kernel_manager := km\<rparr>)
                     | Some g \<Rightarrow>
                         (case enqueueNDRangeKernel env k g 64 (s\<lparr>kernel_manager := km\<rparr>) of
                            (err, s') \<Rightarrow>
                              if err \<noteq> CL_SUCCESS
                              then (Inl (EtError (''OpenCL kernel execution failed. Code ''
                                           @ to_string err)), s')
                              else (Inr (), s')))))"

text \<open>
  \<^verbatim>\<open>OpenCLBackend::globalInhibition\<close> (lines 212-245). The results of both
  \<^verbatim>\<open>enqueueNDRangeKernel\<close> calls are dropped by the source. \<^verbatim>\<open>fraction\<close> is only
  used for a kernel argument and does not appear.
\<close>

definition globalInhibition ::
  "Env \<Rightarrow> nat \<Rightarrow> nat \<Rightarrow> OpenCLBackend \<Rightarrow> (error + unit) \<times> OpenCLBackend"
where
  "globalInhibition env x y s =
     (if \<not> (points_to s x \<and> points_to s y
             \<and> dtype (tensors s ! x) = Int32
             \<and> dtype (tensors s ! y) = Bool
             \<and> shape (tensors s ! x) = shape (tensors s ! y))
      then (Inl AssertionFailure, s)
      else
        let x_size = tensor_size (tensors s ! x);
            args = globalInhibition_args x_size;
            program_name = globalInhibition_program_name env x_size
        in case compileFromFile env [kernel_root s @ ''globalInhibition.cl''] program_name
                  [''fastTopK'', ''threshold''] False args (kernel_manager s) of
             (Inl e, km) \<Rightarrow> (Inl e, s\<lparr>kernel_manager := km\<rparr>)
           | (Inr _, km) \<Rightarrow>
               (case kernel km program_name ''fastTopK'' of
                  None \<Rightarrow> (Inl OutOfRange, s\<lparr>kernel_manager := km\<rparr>)
                | Some topKKernel \<Rightarrow>
                    (case kernel km program_name ''threshold'' of
                       None \<Rightarrow> (Inl OutOfRange, s\<lparr>kernel_manager := km\<rparr>)
                     | Some thresholdKernel \<Rightarrow>
                         (case allocBuffer env 4 (s\<lparr>kernel_manager := km\<rparr>) of
                            (Inl e, s1) \<Rightarrow> (Inl e, s1)
                          | (Inr threshold, s1) \<Rightarrow>
                              let s2 = snd (enqueueNDRangeKernel env topKKernel 256 256 s1);
                                  s3 = snd (enqueueNDRangeKernel env thresholdKernel 1024 32 s2)
                              in (Inr (), s3)))))"

text \<open>
  \<^verbatim>\<open>OpenCLBackend::cast\<close> (lines 247-263). The result of
  \<^verbatim>\<open>enqueueNDRangeKernel\<close> is dropped by the source.
\<close>

definition cast :: "Env \<Rightarrow> nat \<Rightarrow> DType \<Rightarrow> OpenCLBackend \<Rightarrow> (error + nat) \<times> OpenCLBackend" where
  "cast env x toType s =
     (if \<not> points_to s x then (Inl AssertionFailure, s)
      else
        let tx = tensors s ! x;
            args = cast_args env (dtype tx) toType;
            program_name = cast_program_name env (dtype tx) toType
        in case compileFromFile env [kernel_root s @ ''cast.cl''] program_name
                  [''cast''] False args (kernel_manager s) of
             (Inl e, km) \<Rightarrow> (Inl e, s\<lparr>kernel_manager := km\<rparr>)
           | (Inr _, km) \<Rightarrow>
               (case kernel km program_name ''cast'' of
                  None \<Rightarrow> (Inl OutOfRange, s\<lparr>kernel_manager := km\<rparr>)
                | Some k \<Rightarrow>
                    (case createTensor env (shape tx) toType False (s\<lparr>kernel_manager := km\<rparr>) of
                       (Inl e, s1) \<Rightarrow> (Inl e, s1)
                     | (Inr res, s1) \<Rightarrow>
                         (Inr res, snd (enqueueNDRangeKernel env k 1024 32 s1)))))"

text \<open>
  \<^verbatim>\<open>OpenCLBackend::learnCorrilation\<close> (lines 286-322). \<^verbatim>\<open>perm_inc\<close> and
  \<^verbatim>\<open>perm_dec\<close> are only bound as kernel arguments and do not appear.
\<close>

definition learnCorrilation ::
  "Env \<Rightarrow> nat \<Rightarrow> nat \<Rightarrow> nat \<Rightarrow> nat \<Rightarrow> OpenCLBackend \<Rightarrow> (error + unit) \<times> OpenCLBackend"
where
  "learnCorrilation env x learn connections permeances s =
     (if \<not> (points_to s x \<and> points_to s connections \<and> points_to s permeances \<and> points_to s learn
             \<and> shape (tensors s ! connections) = shape (tensors s ! permeances)
             \<and> shape (tensors s ! x) = shape (tensors s ! learn)
             \<and> dtype (tensors s ! x) = Bool
             \<and> dtype (tensors s ! learn) = Bool
             \<and> dtype (tensors s ! connections) = Int32
             \<and> dtype (tensors s ! permeances) = Float)
      then (Inl AssertionFailure, s)
      else if shape (tensors s ! connections) = [] then (Inl UndefinedBehaviour, s)
      else
        let x_size = tensor_size (tensors s ! x);
            max_synapse = last (shape (tensors s ! connections));
            args = learnCorrilation_args x_size max_synapse;
            program_name = learnCorrilation_program_name env x_size max_synapse
        in case compileFromFile env [kernel_root s @ ''learnCorrilation.cl''] program_name
                  [''learnCorrilation''] False args (kernel_manager s) of
             (Inl e, km) \<Rightarrow> (Inl e, s\<lparr>kernel_manager := km\<rparr>)
           | (Inr _, km) \<Rightarrow>
               (case kernel km program_name ''learnCorrilation'' of
                  None \<Rightarrow> (Inl OutOfRange, s\<lparr>kernel_manager := km\<rparr>)
                | Some k \<Rightarrow>
                    (case selectWorkSize 4096 128 x_size of
                       None \<Rightarrow> (Inl UndefinedBehaviour, s\<lparr>kernel_manager := km\<rparr>)
                     | Some g \<Rightarrow>
                         (case enqueueNDRangeKernel env k g 128 (s\<lparr>kernel_manager := km\<rparr>) of
                            (err, s') \<Rightarrow>
                              if err \<noteq> CL_SUCCESS
                              then (Inl (EtError (''OpenCL kernel execution failed. Code ''
                                           @ to_string err)), s')
                              else (Inr (), s')))))"

text \<open>
  \<^verbatim>\<open>OpenCLBackend::sortSynapse\<close> (lines 324-354). A pointer that fails
  \<^verbatim>\<open>points_to\<close> fails the assertions whatever the comparison of the shapes gives.
  \<^verbatim>\<open>num_cells\<close> is an
  \<^verbatim>\<open>int\<close>: the quotient is narrowed to 32 bits and widened again, with its sign, when
  it is passed to \<^verbatim>\<open>selectWorkSize\<close>. \<^verbatim>\<open>sizeof(int)\<close> and
  \<^verbatim>\<open>sizeof(float)\<close> are 4.
\<close>

definition sortSynapse ::
  "Env \<Rightarrow> nat \<Rightarrow> nat \<Rightarrow> OpenCLBackend \<Rightarrow> (error + unit) \<times> OpenCLBackend"
where
  "sortSynapse env connections permeances s =
     (if \<not> (shape (tensors s ! connections) = shape (tensors s ! permeances)
             \<and> points_to s connections \<and> points_to s permeances
             \<and> dtype (tensors s ! connections) = Int32
             \<and> dtype (tensors s ! permeances) = Float)
      then (Inl AssertionFailure, s)
      else if shape (tensors s ! connections) = [] then (Inl UndefinedBehaviour, s)
      else
        let max_synapse = last (shape (tensors s ! connections));
            args = sortSynapse_args max_synapse;
            program_name = sortSynapse_program_name env max_synapse
        in case compileFromFile env [kernel_root s @ ''sort.cl''] program_name
                  [''sortSynapse''] False args (kernel_manager s) of
             (Inl e, km) \<Rightarrow> (Inl e, s\<lparr>kernel_manager := km\<rparr>)
           | (Inr _, km) \<Rightarrow>
               (case kernel km program_name ''sortSynapse'' of
                  None \<Rightarrow> (Inl OutOfRange, s\<lparr>kernel_manager := km\<rparr>)
                | Some k \<Rightarrow>
                    if max_synapse = 0 then (Inl UndefinedBehaviour, s\<lparr>kernel_manager := km\<rparr>)
                    else
                      let num_cells = (ucast (tensor_size (tensors s ! connections) div max_synapse) :: 32 word)
                      in case allocBuffer env (tensor_size (tensors s ! connections) * 4)
                                (s\<lparr>kernel_manager := km\<rparr>) of
                           (Inl e, s1) \<Rightarrow> (Inl e, s1)
                         | (Inr aux_buffer1, s1) \<Rightarrow>
                             (case allocBuffer env (tensor_size (tensors s ! permeances) * 4) s1 of
                                (Inl e, s2) \<Rightarrow> (Inl e, s2)
                              | (Inr aux_buffer2, s2) \<Rightarrow>
                                  (case selectWorkSize 4096 128 (scast num_cells) of
                                     None \<Rightarrow> (Inl UndefinedBehaviour, s2)
                                   | Some g \<Rightarrow>
                                       (case enqueueNDRangeKernel env k g 128 s2 of
                                          (err, s') \<Rightarrow>
                                            if err \<noteq> CL_SUCCESS
                                            then (Inl (EtError (''OpenCL kernel execution failed. Code ''
                                                         @ to_string err)), s')
                                            else (Inr (), s'))))))"

section \<open>Specification-side notions and example states\<close>

text \<open>
  The rule as the specification words it: \<open>groups = ceil(size / mul) * mul\<close>, clamped to
  \<open>min(max, groups)\<close>, over the natural numbers.
\<close>

definition spec_work_size :: "nat \<Rightarrow> nat \<Rightarrow> nat \<Rightarrow> nat" where
  "spec_work_size mx mul sz = min mx (nat \<lceil>real sz / real mul\<rceil> * mul)"

text \<open>
  A device on which every build, allocation, transfer and launch succeeds, every entry
  point but \<^verbatim>\<open>missing\<close> resolves (\<open>-46\<close> is \<^verbatim>\<open>CL_INVALID_KERNEL_NAME\<close>), every
  path can be read, and the hash of a string is its length. It is used to run the model on
  concrete inputs.
\<close>

definition demo_env :: Env where
  "demo_env =
     \<lparr>std_hash = (\<lambda>str. of_nat (length str)),
      files = (\<lambda>path. Some (''// '' @ path)),
      strerror_errno = (\<lambda>path. ''No such file or directory''),
      build_status = (\<lambda>srcs flags. CL_SUCCESS),
      build_info = (\<lambda>srcs flags. []),
      kernel_status = (\<lambda>program name. if name = ''missing'' then - 46 else CL_SUCCESS),
      enqueue_status = (\<lambda>k g l. CL_SUCCESS),
      alloc_status = (\<lambda>sz. CL_SUCCESS),
      map_status = (\<lambda>buf sz. CL_SUCCESS),
      unmap_status = (\<lambda>buf. CL_SUCCESS),
      copy_status = (\<lambda>src dst sz. CL_SUCCESS),
      dtypeToSize = (\<lambda>dt. case dt of Unknown \<Rightarrow> 0 | Bool \<Rightarrow> 1 | Int32 \<Rightarrow> 4 | Float \<Rightarrow> 4),
      to_ctype_string = (\<lambda>dt. case dt of Unknown \<Rightarrow> ''unknown'' | Bool \<Rightarrow> ''bool''
                                 | Int32 \<Rightarrow> ''int'' | Float \<Rightarrow> ''float'')\<rparr>"

definition empty_manager :: KernelManager where
  "empty_manager = \<lparr>apps = Map.empty, builds = []\<rparr>"

text \<open>
  Every kernel in the cache comes from a build the device has performed: its program's
  number is below the number of builds so far.
\<close>

definition km_wf :: "KernelManager \<Rightarrow> bool" where
  "km_wf km = (\<forall>program_name kname k. kernel km program_name kname = Some k
                  \<longrightarrow> prog_id (kernel_program k) < length (builds km))"

text \<open>The entry points the loop of lines 149-155 resolves before it stops.\<close>

definition resolved :: "Env \<Rightarrow> Program \<Rightarrow> string list \<Rightarrow> string list" where
  "resolved env program names = takeWhile (\<lambda>name. kernel_status env program name = CL_SUCCESS) names"

text \<open>The manager after program \<^verbatim>\<open>p\<close> was compiled from source \<^verbatim>\<open>A\<close> with kernel \<^verbatim>\<open>a\<close>.\<close>

definition demo_manager :: KernelManager where
  "demo_manager = snd (compileKernel demo_env [''A''] ''p'' [''a''] False [] empty_manager)"

text \<open>
  The same environment with a device that accepts every kernel launch; and the error the
  three checking operations raise for a launch the device refuses (lines 209, 321, 353).
\<close>

definition accepting :: "Env \<Rightarrow> Env" where
  "accepting env = env\<lparr>enqueue_status := (\<lambda>k g l. CL_SUCCESS)\<rparr>"

definition launch_failed :: "cl_int \<Rightarrow> error" where
  "launch_failed err = EtError (''OpenCL kernel execution failed. Code '' @ to_string err)"

text \<open>The program name has an entry in \<^verbatim>\<open>apps_\<close>.\<close>

definition cached :: "OpenCLBackend \<Rightarrow> string \<Rightarrow> bool" where
  "cached s program_name = (apps (kernel_manager s) program_name \<noteq> None)"

text \<open>
  The byte size the specification gives a tensor: \<open>volume(shape) * size_of(dtype)\<close>, the
  product of the dimension sizes and the element size over the natural numbers.
\<close>

definition nat_volume :: "Shape \<Rightarrow> nat" where
  "nat_volume shp = foldl (\<lambda>val d. val * unat d) 1 shp"

definition spec_byte_size :: "Env \<Rightarrow> Shape \<Rightarrow> DType \<Rightarrow> nat" where
  "spec_byte_size env shp dt = nat_volume shp * unat (dtypeToSize env dt)"

text \<open>
  The invariant of a tensor handle: its buffer is a buffer of the backend, and when the
  byte size of the specification fits in \<^verbatim>\<open>size_t\<close> (is below \<open>2^64\<close>) the buffer has
  that many bytes.
\<close>

definition tensor_inv :: "Env \<Rightarrow> OpenCLBackend \<Rightarrow> bool" where
  "tensor_inv env s =
     (\<forall>t \<in> set (tensors s).
        buffer t < length (buffers s)
        \<and> (spec_byte_size env (shape t) (dtype t) < 2 ^ 64 \<longrightarrow>
             unat (buffers s ! buffer t) = spec_byte_size env (shape t) (dtype t)))"

text \<open>From \<open>s\<close> to \<open>s'\<close> buffers and tensors were only added.\<close>

definition grows :: "OpenCLBackend \<Rightarrow> OpenCLBackend \<Rightarrow> bool" where
  "grows s s' = ((\<exists>bs. buffers s' = buffers s @ bs) \<and> (\<exists>ts. tensors s' = tensors s @ ts))"

text \<open>
  The calls a client can make that produce or use tensors, and the state a sequence of
  calls leaves behind, whether the calls return or raise.
\<close>

datatype call =
    CreateTensor Shape DType bool
  | Copy nat
  | Cast nat DType
  | OverlapScore nat nat nat nat bool
  | GlobalInhibition nat nat
  | LearnCorrilation nat nat nat nat
  | SortSynapse nat nat

fun run_call :: "Env \<Rightarrow> OpenCLBackend \<Rightarrow> call \<Rightarrow> OpenCLBackend" where
  "run_call env s (CreateTensor shp dt has_data) = snd (createTensor env shp dt has_data s)"
| "run_call env s (Copy x) = snd (copy env x s)"
| "run_call env s (Cast x toType) = snd (cast env x toType s)"
| "run_call env s (OverlapScore x connections permeances y h) =
     snd (overlapScore env x connections permeances y h s)"
| "run_call env s (GlobalInhibition x y) = snd (globalInhibition env x y s)"
| "run_call env s (LearnCorrilation x learn connections permeances) =
     snd (learnCorrilation env x learn connections permeances s)"
| "run_call env s (SortSynapse connections permeances) = snd (sortSynapse env connections permeances s)"

definition run_calls :: "Env \<Rightarrow> OpenCLBackend \<Rightarrow> call list \<Rightarrow> OpenCLBackend" where
  "run_calls env s calls = foldl (run_call env) s calls"

text \<open>A step that only adds buffers and tensors and keeps the invariant.\<close>

definition safe :: "Env \<Rightarrow> OpenCLBackend \<Rightarrow> OpenCLBackend \<Rightarrow> bool" where
  "safe env s s' = (grows s s' \<and> (tensor_inv env s \<longrightarrow> tensor_inv env s'))"

text \<open>
  A backend holding an input of 8192 booleans, connections and permeances of shape
  \<open>[8192, 32]\<close> and an output of 8192 integers, with an empty kernel cache.
\<close>

definition demo_backend :: OpenCLBackend where
  "demo_backend =
     \<lparr>kernel_manager = empty_manager,
      kernel_root = ''kernels/'',
      buffers = [8192, 1048576, 1048576, 32768],
      tensors = [\<lparr>shape = [8192], dtype = Bool, buffer = 0\<rparr>,
                 \<lparr>shape = [8192, 32], dtype = Int32, buffer = 1\<rparr>,
                 \<lparr>shape = [8192, 32], dtype = Float, buffer = 2\<rparr>,
                 \<lparr>shape = [8192], dtype = Int32, buffer = 3\<rparr>],
      queue = []\<rparr>"

text \<open>
  The same device refusing every kernel launch with \<open>-54\<close>
  (\<^verbatim>\<open>CL_INVALID_WORK_GROUP_SIZE\<close>).
\<close>

definition failing_env :: Env where
  "failing_env = demo_env\<lparr>enqueue_status := (\<lambda>k g l. - 54)\<rparr>"

text \<open>
  Between \<open>s\<close> and \<open>s'\<close> the program name is cached, and no other name entered or left
  the cache.
\<close>

definition registers :: "OpenCLBackend \<Rightarrow> OpenCLBackend \<Rightarrow> string \<Rightarrow> bool" where
  "registers s s' program_name =
     (cached s' program_name \<and> (\<forall>q. q \<noteq> program_name \<longrightarrow> cached s' q = cached s q))"

text \<open>The demo backend after a cast, and a sequence of calls on the demo backend.\<close>

definition demo_backend2 :: OpenCLBackend where
  "demo_backend2 = snd (cast demo_env 0 Float demo_backend)"

definition demo_calls :: "call list" where
  "demo_calls =
     [CreateTensor [10] Float True, Copy 0, Cast 3 Float, OverlapScore 0 1 2 3 False,
      GlobalInhibition 3 0, LearnCorrilation 0 0 1 2, SortSynapse 1 2]"

section \<open>Verification\<close>

subsection \<open>Work sizes\<close>

lemma ceil_mul_nat:
  assumes "0 < m"
  shows "nat \<lceil>real v / real m\<rceil> * m = (v div m) * m + (if v mod m = 0 then 0 else m)"
proof -
  have "\<lceil>real v / real m\<rceil> = - (- int v div int m)"
    using ceiling_divide_eq_div [of "int v" "int m"] by simp
  also have "\<dots> = (if int v mod int m = 0 then int v div int m else int v div int m + 1)"
    using assms by (simp add: zdiv_zminus1_eq_if)
  also have "\<dots> = int (v div m + (if v mod m = 0 then 0 else 1))"
    by (simp flip: of_nat_mod of_nat_div)
  finally have "nat \<lceil>real v / real m\<rceil> = v div m + (if v mod m = 0 then 0 else 1)"
    by (simp only: nat_int)
  then show ?thesis
    by (simp add: algebra_simps)
qed

lemma word_mod_eq_0_unat: "(v mod m = 0) = (unat v mod unat m = 0)" for v m :: size_t
  by (metis unat_mod unat_eq_zero)

lemma unat_round_up:
  assumes "(unat v div unat mul_of) * unat mul_of + (if unat v mod unat mul_of = 0 then 0 else unat mul_of) < 2 ^ 64"
  shows "unat (round_up mul_of v) = (unat v div unat mul_of) * unat mul_of + (if unat v mod unat mul_of = 0 then 0 else unat mul_of)"
proof -
  let ?q = "v div mul_of" and ?r = "if v mod mul_of = 0 then 0 else mul_of"
  have q: "unat ?q = unat v div unat mul_of" by (simp add: unat_div)
  have r: "unat ?r = (if unat v mod unat mul_of = 0 then 0 else unat mul_of)"
    by (simp add: word_mod_eq_0_unat)
  have "unat ?q * unat mul_of < 2 ^ LENGTH(64)"
    using assms by (simp add: q)
  then have qm: "unat (?q * mul_of) = unat ?q * unat mul_of"
    by (simp only: unat_mult_lem)
  have "unat (?q * mul_of) + unat ?r < 2 ^ LENGTH(64)"
    using assms unfolding qm q r by simp
  then have "unat (?q * mul_of + ?r) = unat (?q * mul_of) + unat ?r"
    by (simp only: unat_add_lem)
  then show ?thesis
    unfolding round_up_def qm q r .
qed

lemma round_up_mod:
  assumes "unat mul_of dvd 2 ^ 64"
  shows "round_up mul_of v mod mul_of = 0"
proof -
  let ?m = "unat mul_of"
  have "unat (round_up mul_of v) = (unat (v div mul_of) * ?m mod 2 ^ 64 + unat (if v mod mul_of = 0 then 0 else mul_of)) mod 2 ^ 64"
    by (simp add: round_up_def unat_word_ariths)
  also have "?m dvd \<dots>"
    using assms by (simp add: dvd_mod dvd_mod_iff)
  finally (ssubst) have "?m dvd unat (round_up mul_of v)" by simp
  then show ?thesis
    by (simp add: word_mod_eq_0_unat)
qed

lemma selectWorkSize_unat:
  assumes "mul_of \<noteq> 0"
    and "nat \<lceil>real (unat sz) / real (unat mul_of)\<rceil> * unat mul_of < 2 ^ 64"
  shows "\<exists>w. selectWorkSize max_sz mul_of sz = Some w
           \<and> unat w = spec_work_size (unat max_sz) (unat mul_of) (unat sz)"
proof -
  let ?m = "unat mul_of" and ?v = "unat sz"
  let ?r = "(?v div ?m) * ?m + (if ?v mod ?m = 0 then 0 else ?m)"
  have m: "0 < ?m" using assms(1) by (simp add: unat_gt_0)
  have c: "nat \<lceil>real ?v / real ?m\<rceil> * ?m = ?r"
    by (rule ceil_mul_nat [OF m])
  have "?r < 2 ^ 64" using assms(2) unfolding c .
  then have u: "unat (round_up mul_of sz) = ?r" by (rule unat_round_up)
  have "unat (min max_sz (round_up mul_of sz)) = min (unat max_sz) ?r"
    unfolding u [symmetric] by (simp add: min_def word_le_nat_alt)
  then have "unat (min max_sz (round_up mul_of sz)) = spec_work_size (unat max_sz) ?m ?v"
    unfolding spec_work_size_def c .
  moreover have "selectWorkSize max_sz mul_of sz = Some (min max_sz (round_up mul_of sz))"
    using assms(1) by (simp add: selectWorkSize_def)
  ultimately show ?thesis by blast
qed

text \<open>
  Claim C2, as amended. For every cap, every group multiple other than 0 and every size
  whose rounded value \<open>ceil(size / mul) * mul\<close> is below \<open>2^64\<close>,
  \<^verbatim>\<open>selectWorkSize\<close> returns \<open>min(max, ceil(size / mul) * mul)\<close>. For
  \<open>max = 8152\<close> and \<open>mul = 64\<close> it returns 8128 for size 8100, 64 for size 64 and 0 for
  size 0.
\<close>

theorem C2_selectWorkSize_rounds_and_clamps:
  "(mul_of \<noteq> 0 \<and> nat \<lceil>real (unat sz) / real (unat mul_of)\<rceil> * unat mul_of < 2 ^ 64 \<longrightarrow>
      (\<exists>w. selectWorkSize max_sz mul_of sz = Some w
         \<and> unat w = spec_work_size (unat max_sz) (unat mul_of) (unat sz)))
   \<and> selectWorkSize 8152 64 8100 = Some 8128
   \<and> selectWorkSize 8152 64 64 = Some 64
   \<and> selectWorkSize 8152 64 0 = Some 0"
proof (intro conjI impI)
  assume "mul_of \<noteq> 0 \<and> nat \<lceil>real (unat sz) / real (unat mul_of)\<rceil> * unat mul_of < 2 ^ 64"
  then show "\<exists>w. selectWorkSize max_sz mul_of sz = Some w
         \<and> unat w = spec_work_size (unat max_sz) (unat mul_of) (unat sz)"
    using selectWorkSize_unat by blast
qed (simp_all add: selectWorkSize_def round_up_def)

text \<open>The rule at \<open>max = 8152\<close>, \<open>mul = 64\<close>, \<open>size = 8100\<close>.\<close>

theorem C2_selectWorkSize_witness:
  "(64 :: size_t) \<noteq> 0
   \<and> nat \<lceil>real (unat (8100 :: size_t)) / real (unat (64 :: size_t))\<rceil> * unat (64 :: size_t) < 2 ^ 64
   \<and> (\<exists>w. selectWorkSize 8152 64 8100 = Some w
         \<and> unat w = spec_work_size (unat (8152 :: size_t)) (unat (64 :: size_t)) (unat (8100 :: size_t)))
   \<and> spec_work_size 8152 64 8100 = 8128"
  using C2_selectWorkSize_rounds_and_clamps [of 64 8100 8152]
  by (simp add: spec_work_size_def)

text \<open>
  Claim C2 as stated fails twice. Size 8100 is rounded to 8128, which is below the cap, so
  the result is not 8152. And for a size just below \<open>2^64\<close> the rounding wraps around to 0,
  where the rule over the natural numbers gives the cap.
\<close>

theorem C2_selectWorkSize_counterexample:
  "selectWorkSize 8152 64 8100 \<noteq> Some 8152
   \<and> selectWorkSize 8152 64 8100 = Some 8128
   \<and> selectWorkSize 8152 64 18446744073709551615 = Some 0
   \<and> spec_work_size 8152 64 18446744073709551615 = 8152"
  by (simp add: selectWorkSize_def round_up_def spec_work_size_def)

text \<open>
  The result never exceeds the cap; with the constants of \<^verbatim>\<open>learnCorrilation\<close> and
  \<^verbatim>\<open>sortSynapse\<close> it is a multiple of the group size for every size.
\<close>

lemma selectWorkSize_le_max:
  "selectWorkSize max_sz mul_of sz = Some g \<Longrightarrow> g \<le> max_sz"
  by (auto simp: selectWorkSize_def split: if_splits)

lemma selectWorkSize_4096_128:
  "\<exists>g. selectWorkSize 4096 128 sz = Some g \<and> g mod 128 = 0 \<and> g \<le> 4096"
proof -
  have "round_up 128 sz mod 128 = 0"
    by (rule round_up_mod) simp
  then have "min 4096 (round_up 128 sz) mod 128 = 0"
    by (cases "4096 \<le> round_up 128 sz") (simp_all add: min_def)
  then show ?thesis
    by (simp add: selectWorkSize_def)
qed

subsection \<open>The kernel cache\<close>

lemma resolve_kernels_builds [simp]:
  "builds (snd (resolve_kernels env program program_name names km)) = builds km"
  by (induction names arbitrary: km) simp_all

lemma resolve_kernels_ok:
  "fst (resolve_kernels env program program_name names km) = Inr ()
     \<longleftrightarrow> (\<forall>name \<in> set names. kernel_status env program name = CL_SUCCESS)"
  by (induction names arbitrary: km) simp_all

lemma resolve_kernels_error:
  "fst (resolve_kernels env program program_name names km) = Inl e \<Longrightarrow>
     \<exists>name \<in> set names. kernel_status env program name \<noteq> CL_SUCCESS
        \<and> e = EtError (''Kernel '' @ name @ '' not found in program '' @ program_name)"
  by (induction names arbitrary: km) (auto split: if_splits)

lemma kernel_update:
  "kernel (km\<lparr>apps := (apps km)(program_name \<mapsto>
              (app_at km program_name)\<lparr>kernels := (kernels (app_at km program_name))(name \<mapsto> k)\<rparr>)\<rparr>) q n
     = (if q = program_name \<and> n = name then Some k else kernel km q n)"
  by (simp add: kernel_def app_at_def split: option.splits)

lemma kernel_resolve_kernels:
  "kernel (snd (resolve_kernels env program program_name names km)) q n =
     (if q = program_name \<and> n \<in> set (resolved env program names)
      then Some \<lparr>kernel_program = program, kernel_name = n\<rparr>
      else kernel km q n)"
proof (induction names arbitrary: km)
  case Nil
  then show ?case by (simp add: resolved_def)
next
  case (Cons name names)
  show ?case
  proof (cases "kernel_status env program name = CL_SUCCESS")
    case False
    then show ?thesis by (simp add: resolved_def)
  next
    case True
    then show ?thesis
      using Cons.IH by (auto simp: resolved_def kernel_update)
  qed
qed

lemma resolve_kernels_apps_None:
  "apps (snd (resolve_kernels env program program_name names km)) q = None
     \<longleftrightarrow> apps km q = None \<and> (q = program_name \<longrightarrow> resolved env program names = [])"
proof (induction names arbitrary: km)
  case Nil
  then show ?case by (simp add: resolved_def)
next
  case (Cons name names)
  then show ?case by (auto simp: resolved_def)
qed

lemma resolved_all:
  "(\<forall>name \<in> set names. kernel_status env program name = CL_SUCCESS) \<Longrightarrow> resolved env program names = names"
  by (simp add: resolved_def)

text \<open>
  \<^verbatim>\<open>compileKernel\<close> by cases: a cache hit, a failed build, a build followed by the
  resolution loop.
\<close>

lemma compileKernel_hit:
  "apps km program_name \<noteq> None \<Longrightarrow>
     compileKernel env srcs program_name kernel_names False flags km = (Inr (), km)"
  by (simp add: compileKernel_def)

lemma compileKernel_build_failed:
  assumes "apps km program_name = None \<or> force_override"
    and "build_status env srcs flags \<noteq> CL_SUCCESS"
  shows "compileKernel env srcs program_name kernel_names force_override flags km =
     (Inl (EtError (''Error building OpenCL program: '' @ program_name
             @ '', Error:'' @ to_string (build_status env srcs flags) @ [CHR 0x0A]
             @ build_info env srcs flags)),
      km\<lparr>builds := builds km @ [\<lparr>prog_id = length (builds km), prog_sources = srcs, prog_flags = flags\<rparr>]\<rparr>)"
  using assms by (auto simp: compileKernel_def Let_def)

lemma compileKernel_built:
  assumes "apps km program_name = None \<or> force_override"
    and "build_status env srcs flags = CL_SUCCESS"
  shows "compileKernel env srcs program_name kernel_names force_override flags km =
     resolve_kernels env \<lparr>prog_id = length (builds km), prog_sources = srcs, prog_flags = flags\<rparr>
       program_name kernel_names
       (km\<lparr>builds := builds km @ [\<lparr>prog_id = length (builds km), prog_sources = srcs, prog_flags = flags\<rparr>],
           apps := (apps km)(program_name \<mapsto> app_at km program_name)\<rparr>)"
  using assms by (auto simp: compileKernel_def Let_def app_at_def)

lemma compileKernel_builds_miss:
  assumes "apps km program_name = None \<or> force_override"
  shows "builds (snd (compileKernel env srcs program_name kernel_names force_override flags km))
       = builds km @ [\<lparr>prog_id = length (builds km), prog_sources = srcs, prog_flags = flags\<rparr>]"
proof (cases "build_status env srcs flags = CL_SUCCESS")
  case True
  show ?thesis unfolding compileKernel_built [OF assms True] by simp
next
  case False
  show ?thesis unfolding compileKernel_build_failed [OF assms False] by simp
qed

lemma compileKernel_Inr_built:
  assumes "apps km program_name = None \<or> force_override"
    and "fst (compileKernel env srcs program_name kernel_names force_override flags km) = Inr ()"
  shows "build_status env srcs flags = CL_SUCCESS"
proof (rule ccontr)
  assume "build_status env srcs flags \<noteq> CL_SUCCESS"
  from compileKernel_build_failed [OF assms(1) this] assms(2) show False by simp
qed

lemma compileKernel_cached_after_build:
  assumes "build_status env srcs flags = CL_SUCCESS"
  shows "apps (snd (compileKernel env srcs program_name kernel_names force_override flags km)) program_name \<noteq> None"
proof (cases "apps km program_name = None \<or> force_override")
  case True
  have "apps (snd (compileKernel env srcs program_name kernel_names force_override flags km)) program_name = None
          \<Longrightarrow> False"
    unfolding compileKernel_built [OF True assms] resolve_kernels_apps_None by simp
  then show ?thesis by blast
next
  case False
  then show ?thesis by (simp add: compileKernel_def)
qed

lemma compileKernel_Inr_cached:
  assumes "fst (compileKernel env srcs program_name kernel_names force_override flags km) = Inr ()"
  shows "apps (snd (compileKernel env srcs program_name kernel_names force_override flags km)) program_name \<noteq> None"
proof (cases "apps km program_name = None \<or> force_override")
  case True
  show ?thesis
    by (rule compileKernel_cached_after_build) (rule compileKernel_Inr_built [OF True assms])
next
  case False
  then show ?thesis by (simp add: compileKernel_def)
qed

lemma compileKernel_apps_other:
  assumes "q \<noteq> program_name"
  shows "(apps (snd (compileKernel env srcs program_name kernel_names force_override flags km)) q = None)
       = (apps km q = None)"
proof (cases "apps km program_name = None \<or> force_override")
  case miss: True
  show ?thesis
  proof (cases "build_status env srcs flags = CL_SUCCESS")
    case True
    show ?thesis
      unfolding compileKernel_built [OF miss True] resolve_kernels_apps_None using assms by simp
  next
    case False
    show ?thesis unfolding compileKernel_build_failed [OF miss False] by simp
  qed
next
  case False
  then show ?thesis by (simp add: compileKernel_def)
qed

lemma compileKernel_dom:
  "dom (apps (snd (compileKernel env srcs program_name kernel_names force_override flags km)))
     \<subseteq> insert program_name (dom (apps km))"
proof
  fix q
  assume q: "q \<in> dom (apps (snd (compileKernel env srcs program_name kernel_names force_override flags km)))"
  show "q \<in> insert program_name (dom (apps km))"
  proof (cases "q = program_name")
    case True
    then show ?thesis by simp
  next
    case False
    from q have "apps (snd (compileKernel env srcs program_name kernel_names force_override flags km)) q \<noteq> None"
      by (simp only: domIff not_False_eq_True)
    then have "apps km q \<noteq> None"
      unfolding compileKernel_apps_other [OF False] .
    then show ?thesis by (simp add: domIff)
  qed
qed

lemma kernel_app_insert:
  "kernel (km\<lparr>builds := b, apps := (apps km)(program_name \<mapsto> app_at km program_name)\<rparr>) q n = kernel km q n"
  by (simp add: kernel_def app_at_def split: option.splits)

lemma kernel_builds_update [simp]:
  "kernel (km\<lparr>builds := b\<rparr>) q n = kernel km q n"
  by (simp add: kernel_def)

lemma kernel_compileKernel_built:
  assumes "apps km program_name = None \<or> force_override"
    and "build_status env srcs flags = CL_SUCCESS"
  shows "kernel (snd (compileKernel env srcs program_name kernel_names force_override flags km)) q n =
     (if q = program_name
         \<and> n \<in> set (resolved env \<lparr>prog_id = length (builds km), prog_sources = srcs, prog_flags = flags\<rparr> kernel_names)
      then Some \<lparr>kernel_program = \<lparr>prog_id = length (builds km), prog_sources = srcs, prog_flags = flags\<rparr>,
                 kernel_name = n\<rparr>
      else kernel km q n)"
  unfolding compileKernel_built [OF assms] kernel_resolve_kernels kernel_app_insert ..

lemma kernel_compileKernel_forced:
  assumes "fst (compileKernel env srcs program_name kernel_names True flags km) = Inr ()"
  shows "kernel (snd (compileKernel env srcs program_name kernel_names True flags km)) q n =
     (if q = program_name \<and> n \<in> set kernel_names
      then Some \<lparr>kernel_program = \<lparr>prog_id = length (builds km), prog_sources = srcs, prog_flags = flags\<rparr>,
                 kernel_name = n\<rparr>
      else kernel km q n)"
proof -
  let ?p = "\<lparr>prog_id = length (builds km), prog_sources = srcs, prog_flags = flags\<rparr>"
  have miss: "apps km program_name = None \<or> True" by simp
  have b: "build_status env srcs flags = CL_SUCCESS"
    by (rule compileKernel_Inr_built [OF miss assms])
  from assms have "\<forall>name \<in> set kernel_names. kernel_status env ?p name = CL_SUCCESS"
    unfolding compileKernel_built [OF miss b] resolve_kernels_ok .
  then have "resolved env ?p kernel_names = kernel_names" by (rule resolved_all)
  then show ?thesis
    using kernel_compileKernel_built [OF miss b, of kernel_names q n] by simp
qed

lemma km_wf_compileKernel:
  assumes "km_wf km"
  shows "km_wf (snd (compileKernel env srcs program_name kernel_names force_override flags km))"
proof (cases "apps km program_name = None \<or> force_override")
  case False
  then show ?thesis using assms by (simp add: compileKernel_def)
next
  case miss: True
  show ?thesis
  proof (cases "build_status env srcs flags = CL_SUCCESS")
    case False
    show ?thesis
      using assms unfolding compileKernel_build_failed [OF miss False] km_wf_def
      by (auto simp: less_Suc_eq)
  next
    case True
    show ?thesis
      unfolding km_wf_def
    proof (intro allI impI)
      fix q n k
      assume "kernel (snd (compileKernel env srcs program_name kernel_names force_override flags km)) q n = Some k"
      then have "prog_id (kernel_program k) = length (builds km) \<or> kernel km q n = Some k"
        unfolding kernel_compileKernel_built [OF miss True] by (auto split: if_splits)
      then have "prog_id (kernel_program k) < Suc (length (builds km))"
        using assms unfolding km_wf_def by (auto simp: less_Suc_eq)
      then show "prog_id (kernel_program k)
          < length (builds (snd (compileKernel env srcs program_name kernel_names force_override flags km)))"
        unfolding compileKernel_builds_miss [OF miss] by simp
    qed
  qed
qed

lemma km_wf_empty: "km_wf empty_manager"
  by (simp add: km_wf_def empty_manager_def kernel_def)

text \<open>
  Claim C1. When the program name has a cached entry, \<^verbatim>\<open>compileKernel\<close> without
  force-override returns at once and leaves the manager as it is (the cache and the history
  of device builds), whatever sources, entry points and flags it is given; a kernel lookup
  under the name gives what it gave before. In particular, when a name that is not cached
  is compiled and the device builds the program (as it does whenever the call returns), a
  second call under the same name, with any sources and flags, returns at once, and the two
  calls together performed one device build.
\<close>

theorem C1_compileKernel_cache_hit:
  "(apps km program_name \<noteq> None \<longrightarrow>
      compileKernel env srcs program_name kernel_names False flags km = (Inr (), km)
      \<and> (\<forall>kname. kernel (snd (compileKernel env srcs program_name kernel_names False flags km))
                    program_name kname = kernel km program_name kname))
   \<and> (apps km program_name = None \<and> build_status env srcs flags = CL_SUCCESS \<longrightarrow>
        compileKernel env srcs' program_name kernel_names' False flags'
            (snd (compileKernel env srcs program_name kernel_names False flags km))
          = (Inr (), snd (compileKernel env srcs program_name kernel_names False flags km))
        \<and> length (builds (snd (compileKernel env srcs program_name kernel_names False flags km)))
            = length (builds km) + 1)"
proof (intro conjI impI)
  assume "apps km program_name \<noteq> None"
  then show "compileKernel env srcs program_name kernel_names False flags km = (Inr (), km)"
    by (rule compileKernel_hit)
  then show "\<forall>kname. kernel (snd (compileKernel env srcs program_name kernel_names False flags km))
                    program_name kname = kernel km program_name kname"
    by simp
next
  assume a: "apps km program_name = None \<and> build_status env srcs flags = CL_SUCCESS"
  then have "apps (snd (compileKernel env srcs program_name kernel_names False flags km)) program_name \<noteq> None"
    by (simp add: compileKernel_cached_after_build del: not_None_eq)
  then show "compileKernel env srcs' program_name kernel_names' False flags'
            (snd (compileKernel env srcs program_name kernel_names False flags km))
          = (Inr (), snd (compileKernel env srcs program_name kernel_names False flags km))"
    by (rule compileKernel_hit)
  from a show "length (builds (snd (compileKernel env srcs program_name kernel_names False flags km)))
            = length (builds km) + 1"
    by (simp add: compileKernel_builds_miss)
qed

lemma demo_manager_eq:
  "demo_manager =
     \<lparr>apps = [''p'' \<mapsto> \<lparr>kernels = [''a'' \<mapsto> \<lparr>kernel_program = \<lparr>prog_id = 0, prog_sources = [''A''], prog_flags = []\<rparr>, kernel_name = ''a''\<rparr>]\<rparr>],
      builds = [\<lparr>prog_id = 0, prog_sources = [''A''], prog_flags = []\<rparr>]\<rparr>"
  by (simp add: demo_manager_def compileKernel_def Let_def demo_env_def empty_manager_def app_at_def)

text \<open>
  Program \<^verbatim>\<open>p\<close> compiled from source \<^verbatim>\<open>A\<close>, then presented again with source
  \<^verbatim>\<open>B\<close>, another entry point and other flags.
\<close>

theorem C1_compileKernel_cache_hit_witness:
  "apps demo_manager ''p'' \<noteq> None
   \<and> compileKernel demo_env [''B''] ''p'' [''b''] False ''-DX=1'' demo_manager = (Inr (), demo_manager)
   \<and> apps empty_manager ''p'' = None \<and> build_status demo_env [''A''] [] = CL_SUCCESS
   \<and> length (builds demo_manager) = 1
   \<and> kernel demo_manager ''p'' ''a''
       = Some \<lparr>kernel_program = \<lparr>prog_id = 0, prog_sources = [''A''], prog_flags = []\<rparr>, kernel_name = ''a''\<rparr>"
  using C1_compileKernel_cache_hit [of demo_manager "''p''" demo_env "[''B'']" "[''b'']" "''-DX=1''"]
    C1_compileKernel_cache_hit [of empty_manager "''p''" demo_env "[''A'']" "[''a'']" "[]" "[''B'']" "[''b'']" "''-DX=1''"]
  by (simp add: demo_manager_eq kernel_def) (simp add: empty_manager_def demo_env_def)

text \<open>
  Claim C4 at the failing input. On an empty cache, program \<^verbatim>\<open>p\<close> is compiled with the
  entry points \<^verbatim>\<open>a\<close> and \<^verbatim>\<open>missing\<close>; the build succeeds and \<^verbatim>\<open>missing\<close> does
  not resolve. The call raises, but the cache keeps an entry for \<^verbatim>\<open>p\<close> holding
  kernel \<^verbatim>\<open>a\<close>, and the same call repeated returns without an error. (When the
  build itself fails the cache is left as it was: \<open>compileKernel_build_failed\<close>.)
\<close>

theorem C4_failed_resolution_keeps_partial_entry:
  "apps empty_manager ''p'' = None
   \<and> fst (compileKernel demo_env [''src''] ''p'' [''a'', ''missing''] False [] empty_manager)
       = Inl (EtError ''Kernel missing not found in program p'')
   \<and> apps (snd (compileKernel demo_env [''src''] ''p'' [''a'', ''missing''] False [] empty_manager)) ''p''
       = Some \<lparr>kernels = [''a'' \<mapsto> \<lparr>kernel_program = \<lparr>prog_id = 0, prog_sources = [''src''], prog_flags = []\<rparr>,
                                    kernel_name = ''a''\<rparr>]\<rparr>
   \<and> fst (compileKernel demo_env [''src''] ''p'' [''a'', ''missing''] False []
             (snd (compileKernel demo_env [''src''] ''p'' [''a'', ''missing''] False [] empty_manager)))
       = Inr ()"
  by (simp add: compileKernel_def Let_def demo_env_def empty_manager_def app_at_def)

text \<open>
  Claim C6, as amended. With force-override \<^verbatim>\<open>compileKernel\<close> always hands a new program
  to the device, cached name or not. When the call returns, a lookup under the program name
  of an entry point requested in the call gives a kernel of the new program, and a lookup of
  any other entry point gives what it gave before the call. The new program is none of the
  programs the cached kernels came from.
\<close>

theorem C6_force_override_recompiles:
  "builds (snd (compileKernel env srcs program_name kernel_names True flags km))
     = builds km @ [\<lparr>prog_id = length (builds km), prog_sources = srcs, prog_flags = flags\<rparr>]
   \<and> (fst (compileKernel env srcs program_name kernel_names True flags km) = Inr () \<longrightarrow>
        (\<forall>kname. kernel (snd (compileKernel env srcs program_name kernel_names True flags km))
                    program_name kname
           = (if kname \<in> set kernel_names
              then Some \<lparr>kernel_program = \<lparr>prog_id = length (builds km), prog_sources = srcs,
                                             prog_flags = flags\<rparr>,
                         kernel_name = kname\<rparr>
              else kernel km program_name kname)))
   \<and> (km_wf km \<longrightarrow>
        (\<forall>q kname k. kernel km q kname = Some k \<longrightarrow>
           kernel_program k \<noteq> \<lparr>prog_id = length (builds km), prog_sources = srcs, prog_flags = flags\<rparr>))"
proof (intro conjI impI allI)
  show "builds (snd (compileKernel env srcs program_name kernel_names True flags km))
     = builds km @ [\<lparr>prog_id = length (builds km), prog_sources = srcs, prog_flags = flags\<rparr>]"
    by (rule compileKernel_builds_miss) simp
next
  fix kname
  assume "fst (compileKernel env srcs program_name kernel_names True flags km) = Inr ()"
  then show "kernel (snd (compileKernel env srcs program_name kernel_names True flags km))
                    program_name kname
           = (if kname \<in> set kernel_names
              then Some \<lparr>kernel_program = \<lparr>prog_id = length (builds km), prog_sources = srcs,
                                             prog_flags = flags\<rparr>,
                         kernel_name = kname\<rparr>
              else kernel km program_name kname)"
    by (simp add: kernel_compileKernel_forced)
next
  fix q kname k
  assume "km_wf km" and "kernel km q kname = Some k"
  then have "prog_id (kernel_program k) < length (builds km)"
    unfolding km_wf_def by blast
  then show "kernel_program k \<noteq> \<lparr>prog_id = length (builds km), prog_sources = srcs, prog_flags = flags\<rparr>"
    by auto
qed

lemma km_wf_demo_manager: "km_wf demo_manager"
  unfolding demo_manager_def by (rule km_wf_compileKernel) (rule km_wf_empty)

text \<open>Program \<^verbatim>\<open>p\<close> recompiled from source \<^verbatim>\<open>B\<close> with force-override.\<close>

theorem C6_force_override_recompiles_witness:
  "fst (compileKernel demo_env [''B''] ''p'' [''a'', ''b''] True [] demo_manager) = Inr ()
   \<and> km_wf demo_manager
   \<and> builds (snd (compileKernel demo_env [''B''] ''p'' [''a'', ''b''] True [] demo_manager))
       = [\<lparr>prog_id = 0, prog_sources = [''A''], prog_flags = []\<rparr>,
          \<lparr>prog_id = 1, prog_sources = [''B''], prog_flags = []\<rparr>]
   \<and> kernel demo_manager ''p'' ''a''
       = Some \<lparr>kernel_program = \<lparr>prog_id = 0, prog_sources = [''A''], prog_flags = []\<rparr>, kernel_name = ''a''\<rparr>
   \<and> kernel (snd (compileKernel demo_env [''B''] ''p'' [''a'', ''b''] True [] demo_manager)) ''p'' ''a''
       = Some \<lparr>kernel_program = \<lparr>prog_id = 1, prog_sources = [''B''], prog_flags = []\<rparr>, kernel_name = ''a''\<rparr>"
proof -
  have ok: "fst (compileKernel demo_env [''B''] ''p'' [''a'', ''b''] True [] demo_manager) = Inr ()"
    by (simp add: demo_manager_eq compileKernel_def Let_def demo_env_def app_at_def)
  have len: "length (builds demo_manager) = 1" and bs: "builds demo_manager = [\<lparr>prog_id = 0, prog_sources = [''A''], prog_flags = []\<rparr>]"
    by (simp_all add: demo_manager_eq)
  have old: "kernel demo_manager ''p'' ''a''
       = Some \<lparr>kernel_program = \<lparr>prog_id = 0, prog_sources = [''A''], prog_flags = []\<rparr>, kernel_name = ''a''\<rparr>"
    by (simp add: demo_manager_eq kernel_def)
  show ?thesis
    using C6_force_override_recompiles [of demo_env "[''B'']" "''p''" "[''a'', ''b'']" "[]" demo_manager]
      ok km_wf_demo_manager old
    by (simp add: len bs)
qed

text \<open>
  Claim C6 as stated fails: after \<^verbatim>\<open>p\<close> is recompiled from source \<^verbatim>\<open>B\<close> with
  force-override and the entry point \<^verbatim>\<open>b\<close> only, a lookup of \<^verbatim>\<open>a\<close> under
  \<^verbatim>\<open>p\<close> still returns the kernel of the program built from source \<^verbatim>\<open>A\<close>.
\<close>

theorem C6_stale_kernel_counterexample:
  "fst (compileKernel demo_env [''B''] ''p'' [''b''] True [] demo_manager) = Inr ()
   \<and> kernel demo_manager ''p'' ''a''
       = Some \<lparr>kernel_program = \<lparr>prog_id = 0, prog_sources = [''A''], prog_flags = []\<rparr>, kernel_name = ''a''\<rparr>
   \<and> kernel (snd (compileKernel demo_env [''B''] ''p'' [''b''] True [] demo_manager)) ''p'' ''a''
       = Some \<lparr>kernel_program = \<lparr>prog_id = 0, prog_sources = [''A''], prog_flags = []\<rparr>, kernel_name = ''a''\<rparr>
   \<and> kernel (snd (compileKernel demo_env [''B''] ''p'' [''b''] True [] demo_manager)) ''p'' ''b''
       = Some \<lparr>kernel_program = \<lparr>prog_id = 1, prog_sources = [''B''], prog_flags = []\<rparr>, kernel_name = ''b''\<rparr>"
  by (simp add: demo_manager_eq compileKernel_def Let_def demo_env_def app_at_def kernel_def)

subsection \<open>Kernel launches\<close>

text \<open>Nothing but the launch itself depends on the device's answer to a launch.\<close>

lemma readAll_accepting [simp]: "readAll (accepting env) path = readAll env path"
  by (simp add: accepting_def readAll_def split: option.splits)

lemma read_sources_accepting [simp]: "read_sources (accepting env) paths = read_sources env paths"
  by (induction paths) (simp_all cong: sum.case_cong)

lemma resolve_kernels_accepting [simp]:
  "resolve_kernels (accepting env) program program_name names km
     = resolve_kernels env program program_name names km"
  by (induction names arbitrary: km) (simp_all add: accepting_def)

lemma compileFromFile_accepting [simp]:
  "compileFromFile (accepting env) paths program_name names force_override flags km
     = compileFromFile env paths program_name names force_override flags km"
proof -
  have "compileKernel (accepting env) srcs program_name names force_override flags km
     = compileKernel env srcs program_name names force_override flags km" for srcs
    unfolding compileKernel_def Let_def resolve_kernels_accepting by (simp add: accepting_def)
  then show ?thesis by (simp add: compileFromFile_def split: sum.splits)
qed

lemma allocBuffer_accepting [simp]: "allocBuffer (accepting env) sz s = allocBuffer env sz s"
  by (simp add: allocBuffer_def accepting_def)

lemma program_names_accepting [simp]:
  "overlapScore_program_name (accepting env) = overlapScore_program_name env"
  "learnCorrilation_program_name (accepting env) = learnCorrilation_program_name env"
  "sortSynapse_program_name (accepting env) = sortSynapse_program_name env"
  by (simp_all add: fun_eq_iff overlapScore_program_name_def learnCorrilation_program_name_def
        sortSynapse_program_name_def hash_string_def accepting_def)

lemma enqueue_accepting [simp]:
  "enqueueNDRangeKernel (accepting env) k g l s
     = (CL_SUCCESS, s\<lparr>queue := queue s @ [\<lparr>cmd_kernel = k, global_size = g, local_size = l\<rparr>]\<rparr>)"
  by (simp add: enqueueNDRangeKernel_def accepting_def)

lemma overlapScore_launch:
  assumes "fst (overlapScore (accepting env) x connections permeances y h s) = Inr ()"
  shows "\<exists>k g. queue (snd (overlapScore (accepting env) x connections permeances y h s))
                 = queue s @ [\<lparr>cmd_kernel = k, global_size = g, local_size = 64\<rparr>]
           \<and> overlapScore env x connections permeances y h s
               = (if enqueue_status env k g 64 \<noteq> CL_SUCCESS
                  then (Inl (launch_failed (enqueue_status env k g 64)),
                        (snd (overlapScore (accepting env) x connections permeances y h s))\<lparr>queue := queue s\<rparr>)
                  else (Inr (), snd (overlapScore (accepting env) x connections permeances y h s)))"
  using assms
  by (auto simp: overlapScore_def Let_def launch_failed_def enqueueNDRangeKernel_def
           split: prod.splits sum.splits option.splits if_splits)

subsection \<open>Program names\<close>

text \<open>The hexadecimal rendering of the hash is injective.\<close>

lemma hex_char_inj:
  assumes "a < 16" "b < 16" "''0123456789abcdef'' ! a = ''0123456789abcdef'' ! b"
  shows "a = b"
proof -
  have "distinct ''0123456789abcdef''" by simp
  moreover have "a < length ''0123456789abcdef''" "b < length ''0123456789abcdef''"
    using assms by simp_all
  ultimately show ?thesis using assms(3) by (simp only: nth_eq_iff_index_eq)
qed

lemma hex_digits_not_Nil: "hex_digits n \<noteq> []"
  by (subst hex_digits.simps) simp

lemma hex_digits_last: "last (hex_digits n) = ''0123456789abcdef'' ! (n mod 16)"
  by (subst hex_digits.simps) simp

lemma hex_digits_butlast: "butlast (hex_digits n) = (if n < 16 then [] else hex_digits (n div 16))"
  by (subst hex_digits.simps) (simp add: butlast_append)

lemma hex_digits_inj: "hex_digits m = hex_digits n \<Longrightarrow> m = n"
proof (induction m arbitrary: n rule: less_induct)
  case (less m)
  from less.prems have "last (hex_digits m) = last (hex_digits n)" by simp
  then have "''0123456789abcdef'' ! (m mod 16) = ''0123456789abcdef'' ! (n mod 16)"
    by (simp only: hex_digits_last)
  then have md: "m mod 16 = n mod 16"
    by (rule hex_char_inj [rotated 2]) simp_all
  from less.prems have "butlast (hex_digits m) = butlast (hex_digits n)" by simp
  then have bl: "(if m < 16 then [] else hex_digits (m div 16)) = (if n < 16 then [] else hex_digits (n div 16))"
    by (simp only: hex_digits_butlast)
  show ?case
  proof (cases "m < 16")
    case True
    with bl hex_digits_not_Nil [of "n div 16"] have "n < 16" by (auto split: if_splits)
    with True md show ?thesis by simp
  next
    case False
    with bl hex_digits_not_Nil [of "m div 16"] have n: "\<not> n < 16" by (auto split: if_splits)
    with False bl have "hex_digits (m div 16) = hex_digits (n div 16)" by simp
    moreover from False have "m div 16 < m" by simp
    ultimately have "m div 16 = n div 16" by (rule less.IH [rotated])
    with md have "m div 16 * 16 + m mod 16 = n div 16 * 16 + n mod 16" by simp
    then show ?thesis by (simp only: div_mult_mod_eq)
  qed
qed

lemma hash_string_eq_iff:
  "hash_string env a = hash_string env b \<longleftrightarrow> std_hash env a = std_hash env b"
proof
  assume "hash_string env a = hash_string env b"
  then have "unat (std_hash env a) = unat (std_hash env b)"
    unfolding hash_string_def by (rule hex_digits_inj)
  then show "std_hash env a = std_hash env b" by (simp only: word_unat_eq_iff)
qed (simp add: hash_string_def)

text \<open>
  \<^verbatim>\<open>std::to_string\<close> yields digits only, so the flag strings of
  \<^verbatim>\<open>globalInhibition\<close> and \<^verbatim>\<open>overlapScore\<close> differ for all parameters.
\<close>

lemma dec_digits_digits: "set (dec_digits n) \<subseteq> set ''0123456789''"
proof (induction n rule: dec_digits.induct)
  case (1 n)
  have d: "''0123456789'' ! k \<in> set ''0123456789''" if "k < 10" for k
    using that by (intro nth_mem) simp
  show ?case
  proof (cases "n < 10")
    case True
    then show ?thesis using d [of n] by (subst dec_digits.simps) simp
  next
    case False
    with "1.IH" d [of "n mod 10"] show ?thesis
      by (subst dec_digits.simps) simp
  qed
qed

lemma digits_then_space:
  assumes "set ds \<subseteq> set ''0123456789''" "set ds' \<subseteq> set ''0123456789''"
    and "ds @ CHR '' '' # r = ds' @ CHR '' '' # r'"
  shows "r = r'"
proof -
  define P where "P = (\<lambda>c. c \<in> set ''0123456789'')"
  have sp: "\<not> P (CHR '' '')" by (simp add: P_def)
  have "\<forall>c \<in> set ds. P c" "\<forall>c \<in> set ds'. P c"
    using assms(1,2) unfolding P_def by blast+
  then have "dropWhile P (ds @ CHR '' '' # r) = CHR '' '' # r"
    "dropWhile P (ds' @ CHR '' '' # r') = CHR '' '' # r'"
    using sp by (simp_all add: dropWhile_append2)
  then show ?thesis using assms(3) by simp
qed

lemma args_differ:
  "globalInhibition_args n \<noteq> overlapScore_args m k h"
proof
  assume "globalInhibition_args n = overlapScore_args m k h"
  then have "dec_digits (unat n) @ CHR '' '' # ''-DMAX_INPUT_VALUE='' @ to_string 2000
      = dec_digits (unat m) @ CHR '' '' # ''-DMAX_SYNAPSE_PER_CELL='' @ to_string_size_t k
          @ '' -DNO_UNUSED_SYNAPSE='' @ to_string_bool (\<not> h)"
    by (simp add: globalInhibition_args_def overlapScore_args_def to_string_size_t_def)
  then have "''-DMAX_INPUT_VALUE='' @ to_string 2000 = ''-DMAX_SYNAPSE_PER_CELL='' @ to_string_size_t k
          @ '' -DNO_UNUSED_SYNAPSE='' @ to_string_bool (\<not> h)"
    by (rule digits_then_space [OF dec_digits_digits dec_digits_digits])
  then show False by simp
qed

text \<open>
  \<^verbatim>\<open>compileFromFile\<close> touches the cache under the given program name only, and
  leaves the name cached when it returns.
\<close>

lemma compileFromFile_dom:
  "dom (apps (snd (compileFromFile env paths program_name names force_override flags km)))
     \<subseteq> insert program_name (dom (apps km))"
  using compileKernel_dom by (auto simp: compileFromFile_def split: sum.splits)

lemma compileFromFile_other:
  "q \<noteq> program_name \<Longrightarrow>
     (apps (snd (compileFromFile env paths program_name names force_override flags km)) q \<noteq> None)
       = (apps km q \<noteq> None)"
  by (simp add: compileFromFile_def compileKernel_apps_other del: not_None_eq split: sum.splits)

lemma compileFromFile_Inr_cached:
  "fst (compileFromFile env paths program_name names force_override flags km) = Inr () \<Longrightarrow>
     apps (snd (compileFromFile env paths program_name names force_override flags km)) program_name \<noteq> None"
proof -
  assume a: "fst (compileFromFile env paths program_name names force_override flags km) = Inr ()"
  show ?thesis
  proof (cases "read_sources env paths")
    case (Inl e)
    with a show ?thesis by (simp add: compileFromFile_def)
  next
    case (Inr sources)
    with a have "fst (compileKernel env sources program_name names force_override flags km) = Inr ()"
      by (simp add: compileFromFile_def)
    then have "apps (snd (compileKernel env sources program_name names force_override flags km)) program_name \<noteq> None"
      by (rule compileKernel_Inr_cached)
    with Inr show ?thesis by (simp add: compileFromFile_def del: not_None_eq)
  qed
qed

lemma compileFromFile_registers:
  assumes "compileFromFile env paths program_name names force_override flags km = (r, km')"
  shows "(r = Inr () \<longrightarrow> apps km' program_name \<noteq> None)
       \<and> (\<forall>q. q \<noteq> program_name \<longrightarrow> (apps km' q \<noteq> None) = (apps km q \<noteq> None))"
  using compileFromFile_Inr_cached [of env paths program_name names force_override flags km]
    compileFromFile_other [of _ program_name env paths names force_override flags km]
  unfolding assms by (simp del: not_None_eq)

lemma compile_step_registers:
  assumes "compileFromFile env paths program_name names False flags (kernel_manager s) = (r, km)"
  shows "(r = Inr () \<longrightarrow> cached (s\<lparr>kernel_manager := km\<rparr>) program_name)
       \<and> (\<forall>q. q \<noteq> program_name \<longrightarrow> cached (s\<lparr>kernel_manager := km\<rparr>) q = cached s q)"
  using compileFromFile_registers [OF assms] by (simp add: cached_def del: not_None_eq)

lemma cached_simps [simp]:
  "cached (s\<lparr>queue := qu\<rparr>) = cached s"
  "cached (s\<lparr>buffers := bs\<rparr>) = cached s"
  "cached (s\<lparr>tensors := ts\<rparr>) = cached s"
  by (simp_all add: cached_def fun_eq_iff)

lemma cached_enqueue [simp]: "cached (snd (enqueueNDRangeKernel env k g l s)) = cached s"
  by (simp add: enqueueNDRangeKernel_def Let_def)

lemma cached_allocBuffer [simp]: "cached (snd (allocBuffer env sz s)) = cached s"
  by (simp add: allocBuffer_def)

lemma cached_createTensor [simp]: "cached (snd (createTensor env shp dt d s)) = cached s"
  by (simp add: createTensor_def Let_def new_tensor_def allocBuffer_def)

lemma overlapScore_registers:
  assumes "overlapScore env x connections permeances y h s = (r, s')"
  shows "(r = Inr () \<longrightarrow>
            cached s' (overlapScore_program_name env (tensor_size (tensors s ! x))
                         (last (shape (tensors s ! connections))) h))
       \<and> (\<forall>q. q \<noteq> overlapScore_program_name env (tensor_size (tensors s ! x))
                         (last (shape (tensors s ! connections))) h
              \<longrightarrow> cached s' q = cached s q)"
proof -
  let ?N = "overlapScore_program_name env (tensor_size (tensors s ! x))
                         (last (shape (tensors s ! connections))) h"
  obtain r0 km where c: "compileFromFile env [kernel_root s @ ''overlapScore.cl''] ?N [''overlapScore''] False
      (overlapScore_args (tensor_size (tensors s ! x)) (last (shape (tensors s ! connections))) h)
      (kernel_manager s) = (r0, km)"
    by (cases "compileFromFile env [kernel_root s @ ''overlapScore.cl''] ?N [''overlapScore''] False
      (overlapScore_args (tensor_size (tensors s ! x)) (last (shape (tensors s ! connections))) h)
      (kernel_manager s)")
  note reg = compile_step_registers [OF c]
  from assms show ?thesis
    unfolding overlapScore_def Let_def c
    using reg
    by (auto simp: enqueueNDRangeKernel_def Let_def split: if_splits sum.splits option.splits)
qed

lemma globalInhibition_registers:
  assumes "globalInhibition env x y s = (r, s')"
  shows "(r = Inr () \<longrightarrow> cached s' (globalInhibition_program_name env (tensor_size (tensors s ! x))))
       \<and> (\<forall>q. q \<noteq> globalInhibition_program_name env (tensor_size (tensors s ! x))
              \<longrightarrow> cached s' q = cached s q)"
proof -
  let ?N = "globalInhibition_program_name env (tensor_size (tensors s ! x))"
  obtain r0 km where c: "compileFromFile env [kernel_root s @ ''globalInhibition.cl''] ?N
      [''fastTopK'', ''threshold''] False (globalInhibition_args (tensor_size (tensors s ! x)))
      (kernel_manager s) = (r0, km)"
    by (cases "compileFromFile env [kernel_root s @ ''globalInhibition.cl''] ?N
      [''fastTopK'', ''threshold''] False (globalInhibition_args (tensor_size (tensors s ! x)))
      (kernel_manager s)")
  note reg = compile_step_registers [OF c]
  from assms show ?thesis
    unfolding globalInhibition_def Let_def c
    using reg
    by (auto simp: enqueueNDRangeKernel_def allocBuffer_def Let_def
             split: if_splits sum.splits option.splits)
qed

lemma cast_registers:
  assumes "cast env x toType s = (r, s')"
  shows "((\<exists>res. r = Inr res) \<longrightarrow> cached s' (cast_program_name env (dtype (tensors s ! x)) toType))
       \<and> (\<forall>q. q \<noteq> cast_program_name env (dtype (tensors s ! x)) toType
              \<longrightarrow> cached s' q = cached s q)"
proof -
  let ?N = "cast_program_name env (dtype (tensors s ! x)) toType"
  obtain r0 km where c: "compileFromFile env [kernel_root s @ ''cast.cl''] ?N
      [''cast''] False (cast_args env (dtype (tensors s ! x)) toType)
      (kernel_manager s) = (r0, km)"
    by (cases "compileFromFile env [kernel_root s @ ''cast.cl''] ?N
      [''cast''] False (cast_args env (dtype (tensors s ! x)) toType)
      (kernel_manager s)")
  note reg = compile_step_registers [OF c]
  from assms show ?thesis
    unfolding cast_def Let_def c
    using reg
    by (auto simp: enqueueNDRangeKernel_def createTensor_def new_tensor_def allocBuffer_def Let_def
             split: if_splits sum.splits option.splits)
qed

lemma learnCorrilation_registers:
  assumes "learnCorrilation env x learn connections permeances s = (r, s')"
  shows "(r = Inr () \<longrightarrow>
            cached s' (learnCorrilation_program_name env (tensor_size (tensors s ! x))
                         (last (shape (tensors s ! connections)))))
       \<and> (\<forall>q. q \<noteq> learnCorrilation_program_name env (tensor_size (tensors s ! x))
                         (last (shape (tensors s ! connections)))
              \<longrightarrow> cached s' q = cached s q)"
proof -
  let ?N = "learnCorrilation_program_name env (tensor_size (tensors s ! x))
                         (last (shape (tensors s ! connections)))"
  obtain r0 km where c: "compileFromFile env [kernel_root s @ ''learnCorrilation.cl''] ?N [''learnCorrilation''] False
      (learnCorrilation_args (tensor_size (tensors s ! x)) (last (shape (tensors s ! connections))))
      (kernel_manager s) = (r0, km)"
    by (cases "compileFromFile env [kernel_root s @ ''learnCorrilation.cl''] ?N [''learnCorrilation''] False
      (learnCorrilation_args (tensor_size (tensors s ! x)) (last (shape (tensors s ! connections))))
      (kernel_manager s)")
  note reg = compile_step_registers [OF c]
  from assms show ?thesis
    unfolding learnCorrilation_def Let_def c
    using reg
    by (auto simp: enqueueNDRangeKernel_def Let_def split: if_splits sum.splits option.splits)
qed

lemma sortSynapse_registers:
  assumes "sortSynapse env connections permeances s = (r, s')"
  shows "(r = Inr () \<longrightarrow>
            cached s' (sortSynapse_program_name env (last (shape (tensors s ! connections)))))
       \<and> (\<forall>q. q \<noteq> sortSynapse_program_name env (last (shape (tensors s ! connections)))
              \<longrightarrow> cached s' q = cached s q)"
proof -
  let ?N = "sortSynapse_program_name env (last (shape (tensors s ! connections)))"
  obtain r0 km where c: "compileFromFile env [kernel_root s @ ''sort.cl''] ?N [''sortSynapse''] False
      (sortSynapse_args (last (shape (tensors s ! connections))))
      (kernel_manager s) = (r0, km)"
    by (cases "compileFromFile env [kernel_root s @ ''sort.cl''] ?N [''sortSynapse''] False
      (sortSynapse_args (last (shape (tensors s ! connections))))
      (kernel_manager s)")
  note reg = compile_step_registers [OF c]
  from assms show ?thesis
    unfolding sortSynapse_def Let_def c
    using reg
    by (auto simp: enqueueNDRangeKernel_def allocBuffer_def Let_def
             split: if_splits sum.splits option.splits)
qed

lemma learnCorrilation_launch:
  assumes "fst (learnCorrilation (accepting env) x learn connections permeances s) = Inr ()"
  shows "\<exists>k g. queue (snd (learnCorrilation (accepting env) x learn connections permeances s))
                 = queue s @ [\<lparr>cmd_kernel = k, global_size = g, local_size = 128\<rparr>]
           \<and> learnCorrilation env x learn connections permeances s
               = (if enqueue_status env k g 128 \<noteq> CL_SUCCESS
                  then (Inl (launch_failed (enqueue_status env k g 128)),
                        (snd (learnCorrilation (accepting env) x learn connections permeances s))\<lparr>queue := queue s\<rparr>)
                  else (Inr (), snd (learnCorrilation (accepting env) x learn connections permeances s)))"
  using assms
  by (auto simp: learnCorrilation_def Let_def launch_failed_def enqueueNDRangeKernel_def
           split: prod.splits sum.splits option.splits if_splits)

lemma alloc_status_accepting [simp]: "alloc_status (accepting env) = alloc_status env"
  by (simp add: accepting_def)

lemma sortSynapse_launch:
  assumes "fst (sortSynapse (accepting env) connections permeances s) = Inr ()"
  shows "\<exists>k g. queue (snd (sortSynapse (accepting env) connections permeances s))
                 = queue s @ [\<lparr>cmd_kernel = k, global_size = g, local_size = 128\<rparr>]
           \<and> sortSynapse env connections permeances s
               = (if enqueue_status env k g 128 \<noteq> CL_SUCCESS
                  then (Inl (launch_failed (enqueue_status env k g 128)),
                        (snd (sortSynapse (accepting env) connections permeances s))\<lparr>queue := queue s\<rparr>)
                  else (Inr (), snd (sortSynapse (accepting env) connections permeances s)))"
  using assms
  by (auto simp: sortSynapse_def Let_def launch_failed_def enqueueNDRangeKernel_def allocBuffer_def
           split: prod.splits sum.splits option.splits if_splits)

subsection \<open>Tensor handles\<close>

lemma safe_refl [simp]: "safe env s s"
  by (simp add: safe_def grows_def)

lemma safe_trans: "safe env s s1 \<Longrightarrow> safe env s1 s2 \<Longrightarrow> safe env s s2"
  by (auto simp: safe_def grows_def)

lemma safe_kernel_manager [simp]: "safe env s (s\<lparr>kernel_manager := km\<rparr>)"
  by (simp add: safe_def grows_def tensor_inv_def)

lemma safe_enqueue [simp]: "safe env s (snd (enqueueNDRangeKernel env k g l s))"
  by (simp add: safe_def grows_def tensor_inv_def enqueueNDRangeKernel_def Let_def)

lemma safe_allocBuffer [simp]: "safe env s (snd (allocBuffer env sz s))"
  by (auto simp: safe_def grows_def tensor_inv_def allocBuffer_def nth_append)

lemma allocBuffer_Inr:
  "allocBuffer env sz s = (Inr buf, s1) \<Longrightarrow>
     buf = length (buffers s) \<and> buffers s1 = buffers s @ [sz] \<and> tensors s1 = tensors s
     \<and> kernel_manager s1 = kernel_manager s \<and> queue s1 = queue s"
  by (auto simp: allocBuffer_def split: if_splits)

text \<open>
  The source computes the byte size in \<^verbatim>\<open>size_t\<close>: it is the byte size of the
  specification modulo \<open>2^64\<close>, and equal to it when that is below \<open>2^64\<close>.
\<close>

lemma unat_foldl_volume:
  "unat a = n mod 2 ^ 64 \<Longrightarrow>
     unat (foldl (\<lambda>val d. val * d) a shp) = foldl (\<lambda>val d. val * unat d) n shp mod 2 ^ 64"
  for a :: size_t
proof (induction shp arbitrary: a n)
  case Nil
  then show ?case by simp
next
  case (Cons d shp)
  have "unat (a * d) = (unat a * unat d) mod 2 ^ 64"
    by (simp add: unat_word_ariths)
  also have "\<dots> = (n * unat d) mod 2 ^ 64"
    unfolding Cons.prems by (simp add: mod_mult_left_eq)
  finally have "unat (a * d) = (n * unat d) mod 2 ^ 64" .
  from Cons.IH [OF this] show ?case by simp
qed

lemma unat_volume: "unat (volume shp) = nat_volume shp mod 2 ^ 64"
  unfolding volume_def nat_volume_def by (rule unat_foldl_volume) simp

lemma unat_byte_size_mod:
  "unat (volume shp * dtypeToSize env dt) = spec_byte_size env shp dt mod 2 ^ 64"
proof -
  have "unat (volume shp * dtypeToSize env dt)
      = (unat (volume shp) * unat (dtypeToSize env dt)) mod 2 ^ 64"
    by (simp add: unat_word_ariths)
  also have "\<dots> = (nat_volume shp * unat (dtypeToSize env dt)) mod 2 ^ 64"
    unfolding unat_volume by (simp add: mod_mult_left_eq)
  finally show ?thesis by (simp only: spec_byte_size_def)
qed

lemma unat_byte_size:
  "spec_byte_size env shp dt < 2 ^ 64 \<Longrightarrow>
     unat (volume shp * dtypeToSize env dt) = spec_byte_size env shp dt"
  by (simp only: unat_byte_size_mod mod_less)

lemma safe_new_tensor:
  "buf < length (buffers s) \<Longrightarrow> buffers s ! buf = volume shp * dtypeToSize env dt \<Longrightarrow>
     safe env s (snd (new_tensor shp dt buf s))"
  by (auto simp: safe_def grows_def tensor_inv_def new_tensor_def unat_byte_size)

lemma safe_createTensor [simp]: "safe env s (snd (createTensor env shp dt d s))"
proof (cases "allocBuffer env (volume shp * dtypeToSize env dt) s")
  case (Pair r s1)
  have s1: "safe env s s1" using safe_allocBuffer [of env s "volume shp * dtypeToSize env dt"] Pair by simp
  show ?thesis
  proof (cases r)
    case (Inl e)
    with Pair s1 show ?thesis by (simp add: createTensor_def Let_def)
  next
    case (Inr buf)
    with Pair have a: "buf = length (buffers s)" "buffers s1 = buffers s @ [volume shp * dtypeToSize env dt]"
      using allocBuffer_Inr by blast+
    have "safe env s1 (snd (new_tensor shp dt buf s1))"
      by (rule safe_new_tensor) (simp_all add: a)
    with s1 have "safe env s (snd (new_tensor shp dt buf s1))" by (rule safe_trans)
    with Pair Inr s1 show ?thesis by (simp add: createTensor_def Let_def)
  qed
qed

lemma safe_copy [simp]: "safe env s (snd (copy env x s))"
proof (cases "points_to s x")
  case False
  then show ?thesis by (simp add: copy_def)
next
  case True
  let ?tx = "tensors s ! x"
  let ?sz = "tensor_size ?tx * dtypeToSize env (dtype ?tx)"
  obtain r s1 where Pair: "allocBuffer env ?sz s = (r, s1)" by (cases "allocBuffer env ?sz s")
  have s1: "safe env s s1" using safe_allocBuffer [of env s ?sz] Pair by simp
  show ?thesis
  proof (cases r)
    case (Inl e)
    with Pair s1 True show ?thesis by (simp add: copy_def Let_def)
  next
    case (Inr buf)
    with Pair have a: "buf = length (buffers s)" "buffers s1 = buffers s @ [?sz]"
      using allocBuffer_Inr by blast+
    have "safe env s1 (snd (new_tensor (shape ?tx) (dtype ?tx) buf s1))"
      by (rule safe_new_tensor) (simp_all add: a tensor_size_def)
    with s1 have "safe env s (snd (new_tensor (shape ?tx) (dtype ?tx) buf s1))" by (rule safe_trans)
    with Pair Inr s1 True show ?thesis by (simp add: copy_def Let_def)
  qed
qed

lemma safe_step:
  "safe env s s1 \<Longrightarrow> safe env s (snd (enqueueNDRangeKernel env k g l s1))"
  "safe env s s1 \<Longrightarrow> safe env s (snd (allocBuffer env sz s1))"
  "safe env s s1 \<Longrightarrow> safe env s (snd (createTensor env shp dt d s1))"
  by (erule safe_trans, simp)+

lemma snd_eqI: "f = (a, b) \<Longrightarrow> b = snd f"
  by simp

lemma safe_overlapScore [simp]: "safe env s (snd (overlapScore env x connections permeances y h s))"
  by (auto simp: overlapScore_def Let_def dest!: snd_eqI intro!: safe_step
           split: prod.splits sum.splits option.splits if_splits)

lemma safe_learnCorrilation [simp]:
  "safe env s (snd (learnCorrilation env x learn connections permeances s))"
  by (auto simp: learnCorrilation_def Let_def dest!: snd_eqI intro!: safe_step
           split: prod.splits sum.splits option.splits if_splits)

lemma safe_globalInhibition [simp]: "safe env s (snd (globalInhibition env x y s))"
  by (auto simp: globalInhibition_def Let_def dest!: snd_eqI intro!: safe_step
           split: prod.splits sum.splits option.splits if_splits)

lemma safe_cast [simp]: "safe env s (snd (cast env x toType s))"
  by (auto simp: cast_def Let_def dest!: snd_eqI intro!: safe_step
           split: prod.splits sum.splits option.splits if_splits)

lemma safe_sortSynapse [simp]: "safe env s (snd (sortSynapse env connections permeances s))"
  by (auto simp: sortSynapse_def Let_def dest!: snd_eqI intro!: safe_step
           split: prod.splits sum.splits option.splits if_splits)

lemma safe_run_call: "safe env s (run_call env s c)"
  by (cases c) simp_all

lemma safe_run_calls: "safe env s (run_calls env s calls)"
  unfolding run_calls_def
proof (induction calls arbitrary: s)
  case Nil
  show ?case by simp
next
  case (Cons c calls)
  have "safe env s (run_call env s c)" by (rule safe_run_call)
  moreover have "safe env (run_call env s c) (foldl (run_call env) (run_call env s c) calls)"
    by (rule Cons.IH)
  ultimately show ?case by (simp add: safe_trans)
qed

lemma grows_frame:
  assumes "grows s s'" "tensor_inv env s" "points_to s h"
  shows "points_to s' h \<and> tensors s' ! h = tensors s ! h
         \<and> buffers s' ! buffer (tensors s ! h) = buffers s ! buffer (tensors s ! h)"
proof -
  from assms(1) obtain bs ts where g: "buffers s' = buffers s @ bs" "tensors s' = tensors s @ ts"
    unfolding grows_def by blast
  from assms(3) have h: "h < length (tensors s)" by (simp add: points_to_def)
  then have "tensors s ! h \<in> set (tensors s)" by simp
  with assms(2) have "buffer (tensors s ! h) < length (buffers s)"
    unfolding tensor_inv_def by blast
  with h g show ?thesis by (simp add: points_to_def nth_append)
qed

subsection \<open>Running the model on the demo backend\<close>

lemmas eval_defs =
  points_to_def demo_backend_def demo_env_def tensor_size_def volume_def
  overlapScore_args_def overlapScore_program_name_def hash_string_def to_string_size_t_def
  to_string_bool_def to_string_def dec_digits.simps hex_digits.simps compileFromFile_def readAll_def
  compileKernel_def app_at_def empty_manager_def kernel_def selectWorkSize_def round_up_def
  enqueueNDRangeKernel_def Let_def

lemmas eval_more =
  eval_defs overlapScore_def learnCorrilation_def sortSynapse_def globalInhibition_def cast_def
  learnCorrilation_args_def learnCorrilation_program_name_def sortSynapse_args_def
  sortSynapse_program_name_def globalInhibition_args_def globalInhibition_program_name_def
  cast_args_def cast_program_name_def createTensor_def allocBuffer_def new_tensor_def copy_def
  failing_env_def accepting_def

text \<open>
  Claim C3 at the failing input. \<^verbatim>\<open>overlapScore\<close> on the demo backend, whose input has
  8192 elements, returns normally and has launched one kernel: with a grid of 8152 work items
  in groups of 64. The size is rounded to 8192 and clamped to the cap 8152, which is not a
  multiple of the group size (\<open>8152 = 127 * 64 + 24\<close>).
\<close>

theorem C3_overlapScore_grid_not_multiple:
  "fst (overlapScore demo_env 0 1 2 3 False demo_backend) = Inr ()
   \<and> map (\<lambda>c. (global_size c, local_size c)) (queue (snd (overlapScore demo_env 0 1 2 3 False demo_backend)))
       = [(8152, 64)]
   \<and> selectWorkSize 8152 64 8192 = Some 8152
   \<and> (8152 :: size_t) mod 64 = 24"
  by (simp add: eval_more)

text \<open>
  Claim C5, as amended. Take a call of \<^verbatim>\<open>overlapScore\<close>, \<^verbatim>\<open>learnCorrilation\<close> or
  \<^verbatim>\<open>sortSynapse\<close> that runs to its end on a device that accepts the launch, and let
  \<open>k\<close> and \<open>g\<close> be the kernel and the grid it launches. On any device, the call raises
  \<^verbatim>\<open>OpenCL kernel execution failed. Code \<close> followed by the status the device gives for
  that launch when the status is not \<^verbatim>\<open>CL_SUCCESS\<close>, and returns normally otherwise.
  The message carries the device's code; it does not name the operation.
\<close>

theorem C5_launch_failure_raises:
  "(fst (overlapScore (accepting env) x connections permeances y h s) = Inr () \<longrightarrow>
      (\<exists>k g. queue (snd (overlapScore (accepting env) x connections permeances y h s))
                = queue s @ [\<lparr>cmd_kernel = k, global_size = g, local_size = 64\<rparr>]
         \<and> fst (overlapScore env x connections permeances y h s)
             = (if enqueue_status env k g 64 \<noteq> CL_SUCCESS
                then Inl (EtError (''OpenCL kernel execution failed. Code ''
                                     @ to_string (enqueue_status env k g 64)))
                else Inr ())))
   \<and> (fst (learnCorrilation (accepting env) x learn connections permeances s) = Inr () \<longrightarrow>
      (\<exists>k g. queue (snd (learnCorrilation (accepting env) x learn connections permeances s))
                = queue s @ [\<lparr>cmd_kernel = k, global_size = g, local_size = 128\<rparr>]
         \<and> fst (learnCorrilation env x learn connections permeances s)
             = (if enqueue_status env k g 128 \<noteq> CL_SUCCESS
                then Inl (EtError (''OpenCL kernel execution failed. Code ''
                                     @ to_string (enqueue_status env k g 128)))
                else Inr ())))
   \<and> (fst (sortSynapse (accepting env) connections permeances s) = Inr () \<longrightarrow>
      (\<exists>k g. queue (snd (sortSynapse (accepting env) connections permeances s))
                = queue s @ [\<lparr>cmd_kernel = k, global_size = g, local_size = 128\<rparr>]
         \<and> fst (sortSynapse env connections permeances s)
             = (if enqueue_status env k g 128 \<noteq> CL_SUCCESS
                then Inl (EtError (''OpenCL kernel execution failed. Code ''
                                     @ to_string (enqueue_status env k g 128)))
                else Inr ())))"
proof (intro conjI impI)
  assume "fst (overlapScore (accepting env) x connections permeances y h s) = Inr ()"
  from overlapScore_launch [OF this]
  show "\<exists>k g. queue (snd (overlapScore (accepting env) x connections permeances y h s))
                = queue s @ [\<lparr>cmd_kernel = k, global_size = g, local_size = 64\<rparr>]
         \<and> fst (overlapScore env x connections permeances y h s)
             = (if enqueue_status env k g 64 \<noteq> CL_SUCCESS
                then Inl (EtError (''OpenCL kernel execution failed. Code ''
                                     @ to_string (enqueue_status env k g 64)))
                else Inr ())"
    unfolding launch_failed_def by (elim exE conjE, intro exI conjI) (assumption, simp)
next
  assume "fst (learnCorrilation (accepting env) x learn connections permeances s) = Inr ()"
  from learnCorrilation_launch [OF this]
  show "\<exists>k g. queue (snd (learnCorrilation (accepting env) x learn connections permeances s))
                = queue s @ [\<lparr>cmd_kernel = k, global_size = g, local_size = 128\<rparr>]
         \<and> fst (learnCorrilation env x learn connections permeances s)
             = (if enqueue_status env k g 128 \<noteq> CL_SUCCESS
                then Inl (EtError (''OpenCL kernel execution failed. Code ''
                                     @ to_string (enqueue_status env k g 128)))
                else Inr ())"
    unfolding launch_failed_def by (elim exE conjE, intro exI conjI) (assumption, simp)
next
  assume "fst (sortSynapse (accepting env) connections permeances s) = Inr ()"
  from sortSynapse_launch [OF this]
  show "\<exists>k g. queue (snd (sortSynapse (accepting env) connections permeances s))
                = queue s @ [\<lparr>cmd_kernel = k, global_size = g, local_size = 128\<rparr>]
         \<and> fst (sortSynapse env connections permeances s)
             = (if enqueue_status env k g 128 \<noteq> CL_SUCCESS
                then Inl (EtError (''OpenCL kernel execution failed. Code ''
                                     @ to_string (enqueue_status env k g 128)))
                else Inr ())"
    unfolding launch_failed_def by (elim exE conjE, intro exI conjI) (assumption, simp)
qed

lemma accepting_failing_env: "accepting failing_env = demo_env"
  by (simp add: accepting_def failing_env_def demo_env_def)

lemma demo_runs:
  "fst (overlapScore demo_env 0 1 2 3 False demo_backend) = Inr ()"
  "fst (learnCorrilation demo_env 0 0 1 2 demo_backend) = Inr ()"
  "fst (sortSynapse demo_env 1 2 demo_backend) = Inr ()"
  "fst (globalInhibition demo_env 3 0 demo_backend) = Inr ()"
  "fst (cast demo_env 0 Float demo_backend) = Inr 4"
  by (simp_all add: eval_more)

text \<open>The three operations on the demo backend with a device that refuses every launch.\<close>

theorem C5_launch_failure_raises_witness:
  "fst (overlapScore (accepting failing_env) 0 1 2 3 False demo_backend) = Inr ()
   \<and> fst (overlapScore failing_env 0 1 2 3 False demo_backend)
       = Inl (EtError ''OpenCL kernel execution failed. Code -54'')
   \<and> fst (learnCorrilation (accepting failing_env) 0 0 1 2 demo_backend) = Inr ()
   \<and> fst (learnCorrilation failing_env 0 0 1 2 demo_backend)
       = Inl (EtError ''OpenCL kernel execution failed. Code -54'')
   \<and> fst (sortSynapse (accepting failing_env) 1 2 demo_backend) = Inr ()
   \<and> fst (sortSynapse failing_env 1 2 demo_backend)
       = Inl (EtError ''OpenCL kernel execution failed. Code -54'')"
proof -
  have st: "enqueue_status failing_env k g l = - 54" for k g l
    by (simp add: failing_env_def)
  have ts: "to_string (- 54) = ''-54''"
    by (simp add: to_string_def dec_digits.simps)
  show ?thesis
    using C5_launch_failure_raises [where env = failing_env and s = demo_backend and x = 0
        and connections = 1 and permeances = 2 and y = 3 and h = False and learn = 0]
    by (simp add: accepting_failing_env demo_runs st ts del: One_nat_def)
qed

text \<open>
  Claim C5 as stated fails. On a device that refuses every launch, \<^verbatim>\<open>cast\<close> and
  \<^verbatim>\<open>globalInhibition\<close> return normally although nothing was launched; and
  \<^verbatim>\<open>overlapScore\<close> and \<^verbatim>\<open>learnCorrilation\<close> raise the very same error, which
  therefore does not name the operation.
\<close>

theorem C5_ignored_failure_counterexample:
  "fst (cast failing_env 0 Float demo_backend) = Inr 4
   \<and> queue (snd (cast failing_env 0 Float demo_backend)) = []
   \<and> fst (globalInhibition failing_env 3 0 demo_backend) = Inr ()
   \<and> queue (snd (globalInhibition failing_env 3 0 demo_backend)) = []
   \<and> fst (overlapScore failing_env 0 1 2 3 False demo_backend)
       = Inl (EtError ''OpenCL kernel execution failed. Code -54'')
   \<and> fst (learnCorrilation failing_env 0 0 1 2 demo_backend)
       = Inl (EtError ''OpenCL kernel execution failed. Code -54'')"
  by (simp add: eval_more)

lemma registersI:
  assumes "(r = Inr u \<longrightarrow> cached s' n) \<and> (\<forall>q. q \<noteq> n \<longrightarrow> cached s' q = cached s q)" "r = Inr u"
  shows "registers s s' n"
  using assms by (simp add: registers_def)

lemma program_name_eq_iff:
  "(p @ hash_string env a = p @ hash_string env b) = (std_hash env a = std_hash env b)"
  by (simp add: hash_string_eq_iff)

text \<open>
  Claim C7. For each of the five operations: when two calls, in any two states of the
  backend and on any tensors, agree on the specialization parameters (sizes, element types,
  flags) and return, both leave the same program name cached, the one computed from the
  parameters, and change the cache under no other name. And two program names of an
  operation are equal exactly when the hashes of their flag strings are equal, so they
  differ whenever the hashes differ.
\<close>

theorem C7_program_names_deterministic:
  "(fst (overlapScore env x1 c1 p1 y1 h s1) = Inr () \<and> fst (overlapScore env x2 c2 p2 y2 h s2) = Inr ()
      \<and> tensor_size (tensors s1 ! x1) = tensor_size (tensors s2 ! x2)
      \<and> last (shape (tensors s1 ! c1)) = last (shape (tensors s2 ! c2)) \<longrightarrow>
      registers s1 (snd (overlapScore env x1 c1 p1 y1 h s1))
        (overlapScore_program_name env (tensor_size (tensors s1 ! x1)) (last (shape (tensors s1 ! c1))) h)
      \<and> registers s2 (snd (overlapScore env x2 c2 p2 y2 h s2))
        (overlapScore_program_name env (tensor_size (tensors s1 ! x1)) (last (shape (tensors s1 ! c1))) h))
   \<and> (fst (globalInhibition env x1 y1 s1) = Inr () \<and> fst (globalInhibition env x2 y2 s2) = Inr ()
      \<and> tensor_size (tensors s1 ! x1) = tensor_size (tensors s2 ! x2) \<longrightarrow>
      registers s1 (snd (globalInhibition env x1 y1 s1))
        (globalInhibition_program_name env (tensor_size (tensors s1 ! x1)))
      \<and> registers s2 (snd (globalInhibition env x2 y2 s2))
        (globalInhibition_program_name env (tensor_size (tensors s1 ! x1))))
   \<and> (fst (cast env x1 toType s1) = Inr r1 \<and> fst (cast env x2 toType s2) = Inr r2
      \<and> dtype (tensors s1 ! x1) = dtype (tensors s2 ! x2) \<longrightarrow>
      registers s1 (snd (cast env x1 toType s1)) (cast_program_name env (dtype (tensors s1 ! x1)) toType)
      \<and> registers s2 (snd (cast env x2 toType s2)) (cast_program_name env (dtype (tensors s1 ! x1)) toType))
   \<and> (fst (learnCorrilation env x1 l1 c1 p1 s1) = Inr () \<and> fst (learnCorrilation env x2 l2 c2 p2 s2) = Inr ()
      \<and> tensor_size (tensors s1 ! x1) = tensor_size (tensors s2 ! x2)
      \<and> last (shape (tensors s1 ! c1)) = last (shape (tensors s2 ! c2)) \<longrightarrow>
      registers s1 (snd (learnCorrilation env x1 l1 c1 p1 s1))
        (learnCorrilation_program_name env (tensor_size (tensors s1 ! x1)) (last (shape (tensors s1 ! c1))))
      \<and> registers s2 (snd (learnCorrilation env x2 l2 c2 p2 s2))
        (learnCorrilation_program_name env (tensor_size (tensors s1 ! x1)) (last (shape (tensors s1 ! c1)))))
   \<and> (fst (sortSynapse env c1 p1 s1) = Inr () \<and> fst (sortSynapse env c2 p2 s2) = Inr ()
      \<and> last (shape (tensors s1 ! c1)) = last (shape (tensors s2 ! c2)) \<longrightarrow>
      registers s1 (snd (sortSynapse env c1 p1 s1))
        (sortSynapse_program_name env (last (shape (tensors s1 ! c1))))
      \<and> registers s2 (snd (sortSynapse env c2 p2 s2))
        (sortSynapse_program_name env (last (shape (tensors s1 ! c1)))))
   \<and> (overlapScore_program_name env n m h = overlapScore_program_name env n' m' h')
       = (std_hash env (overlapScore_args n m h) = std_hash env (overlapScore_args n' m' h'))
   \<and> (globalInhibition_program_name env n = globalInhibition_program_name env n')
       = (std_hash env (globalInhibition_args n) = std_hash env (globalInhibition_args n'))
   \<and> (cast_program_name env d t = cast_program_name env d' t')
       = (std_hash env (cast_args env d t) = std_hash env (cast_args env d' t'))
   \<and> (learnCorrilation_program_name env n m = learnCorrilation_program_name env n' m')
       = (std_hash env (learnCorrilation_args n m) = std_hash env (learnCorrilation_args n' m'))
   \<and> (sortSynapse_program_name env m = sortSynapse_program_name env m')
       = (std_hash env (sortSynapse_args m) = std_hash env (sortSynapse_args m'))"
proof (intro conjI impI; (elim conjE)?)
  show "(overlapScore_program_name env n m h = overlapScore_program_name env n' m' h')
       = (std_hash env (overlapScore_args n m h) = std_hash env (overlapScore_args n' m' h'))"
    unfolding overlapScore_program_name_def by (rule program_name_eq_iff)
  show "(globalInhibition_program_name env n = globalInhibition_program_name env n')
       = (std_hash env (globalInhibition_args n) = std_hash env (globalInhibition_args n'))"
    unfolding globalInhibition_program_name_def by (rule program_name_eq_iff)
  show "(cast_program_name env d t = cast_program_name env d' t')
       = (std_hash env (cast_args env d t) = std_hash env (cast_args env d' t'))"
    unfolding cast_program_name_def by (rule program_name_eq_iff)
  show "(learnCorrilation_program_name env n m = learnCorrilation_program_name env n' m')
       = (std_hash env (learnCorrilation_args n m) = std_hash env (learnCorrilation_args n' m'))"
    unfolding learnCorrilation_program_name_def by (rule program_name_eq_iff)
  show "(sortSynapse_program_name env m = sortSynapse_program_name env m')
       = (std_hash env (sortSynapse_args m) = std_hash env (sortSynapse_args m'))"
    unfolding sortSynapse_program_name_def by (rule program_name_eq_iff)
next
  assume "fst (overlapScore env x1 c1 p1 y1 h s1) = Inr ()"
  then show "registers s1 (snd (overlapScore env x1 c1 p1 y1 h s1))
        (overlapScore_program_name env (tensor_size (tensors s1 ! x1)) (last (shape (tensors s1 ! c1))) h)"
    by (intro registersI [OF overlapScore_registers]) (rule prod.collapse [symmetric])
next
  assume "fst (overlapScore env x2 c2 p2 y2 h s2) = Inr ()"
    and "tensor_size (tensors s1 ! x1) = tensor_size (tensors s2 ! x2)"
    and "last (shape (tensors s1 ! c1)) = last (shape (tensors s2 ! c2))"
  then show "registers s2 (snd (overlapScore env x2 c2 p2 y2 h s2))
        (overlapScore_program_name env (tensor_size (tensors s1 ! x1)) (last (shape (tensors s1 ! c1))) h)"
    by (simp only:) (intro registersI [OF overlapScore_registers], rule prod.collapse [symmetric])
next
  assume "fst (globalInhibition env x1 y1 s1) = Inr ()"
  then show "registers s1 (snd (globalInhibition env x1 y1 s1))
        (globalInhibition_program_name env (tensor_size (tensors s1 ! x1)))"
    by (intro registersI [OF globalInhibition_registers]) (rule prod.collapse [symmetric])
next
  assume "fst (globalInhibition env x2 y2 s2) = Inr ()"
    and "tensor_size (tensors s1 ! x1) = tensor_size (tensors s2 ! x2)"
  then show "registers s2 (snd (globalInhibition env x2 y2 s2))
        (globalInhibition_program_name env (tensor_size (tensors s1 ! x1)))"
    by (simp only:) (intro registersI [OF globalInhibition_registers], rule prod.collapse [symmetric])
next
  assume a: "fst (cast env x1 toType s1) = Inr r1"
  have "cast env x1 toType s1 = (fst (cast env x1 toType s1), snd (cast env x1 toType s1))" by simp
  from cast_registers [OF this] a
  show "registers s1 (snd (cast env x1 toType s1)) (cast_program_name env (dtype (tensors s1 ! x1)) toType)"
    by (simp add: registers_def)
next
  assume a: "fst (cast env x2 toType s2) = Inr r2"
    and d: "dtype (tensors s1 ! x1) = dtype (tensors s2 ! x2)"
  have "cast env x2 toType s2 = (fst (cast env x2 toType s2), snd (cast env x2 toType s2))" by simp
  from cast_registers [OF this] a
  show "registers s2 (snd (cast env x2 toType s2)) (cast_program_name env (dtype (tensors s1 ! x1)) toType)"
    unfolding d by (simp add: registers_def)
next
  assume "fst (learnCorrilation env x1 l1 c1 p1 s1) = Inr ()"
  then show "registers s1 (snd (learnCorrilation env x1 l1 c1 p1 s1))
        (learnCorrilation_program_name env (tensor_size (tensors s1 ! x1)) (last (shape (tensors s1 ! c1))))"
    by (intro registersI [OF learnCorrilation_registers]) (rule prod.collapse [symmetric])
next
  assume "fst (learnCorrilation env x2 l2 c2 p2 s2) = Inr ()"
    and "tensor_size (tensors s1 ! x1) = tensor_size (tensors s2 ! x2)"
    and "last (shape (tensors s1 ! c1)) = last (shape (tensors s2 ! c2))"
  then show "registers s2 (snd (learnCorrilation env x2 l2 c2 p2 s2))
        (learnCorrilation_program_name env (tensor_size (tensors s1 ! x1)) (last (shape (tensors s1 ! c1))))"
    by (simp only:) (intro registersI [OF learnCorrilation_registers], rule prod.collapse [symmetric])
next
  assume "fst (sortSynapse env c1 p1 s1) = Inr ()"
  then show "registers s1 (snd (sortSynapse env c1 p1 s1))
        (sortSynapse_program_name env (last (shape (tensors s1 ! c1))))"
    by (intro registersI [OF sortSynapse_registers]) (rule prod.collapse [symmetric])
next
  assume "fst (sortSynapse env c2 p2 s2) = Inr ()"
    and "last (shape (tensors s1 ! c1)) = last (shape (tensors s2 ! c2))"
  then show "registers s2 (snd (sortSynapse env c2 p2 s2))
        (sortSynapse_program_name env (last (shape (tensors s1 ! c1))))"
    by (simp only:) (intro registersI [OF sortSynapse_registers], rule prod.collapse [symmetric])
qed

lemma demo_backend2_eq:
  "demo_backend2 =
     \<lparr>kernel_manager =
        \<lparr>apps = [''cast1d'' \<mapsto> \<lparr>kernels = [''cast'' \<mapsto>
                   \<lparr>kernel_program = \<lparr>prog_id = 0, prog_sources = [''// kernels/cast.cl''],
                                       prog_flags = ''-DInType=bool -DOutType=float''\<rparr>,
                    kernel_name = ''cast''\<rparr>]\<rparr>],
         builds = [\<lparr>prog_id = 0, prog_sources = [''// kernels/cast.cl''],
                    prog_flags = ''-DInType=bool -DOutType=float''\<rparr>]\<rparr>,
      kernel_root = ''kernels/'',
      buffers = [8192, 1048576, 1048576, 32768, 32768],
      tensors = [\<lparr>shape = [8192], dtype = Bool, buffer = 0\<rparr>,
                 \<lparr>shape = [8192, 32], dtype = Int32, buffer = 1\<rparr>,
                 \<lparr>shape = [8192, 32], dtype = Float, buffer = 2\<rparr>,
                 \<lparr>shape = [8192], dtype = Int32, buffer = 3\<rparr>,
                 \<lparr>shape = [8192], dtype = Float, buffer = 4\<rparr>],
      queue = [\<lparr>cmd_kernel = \<lparr>kernel_program = \<lparr>prog_id = 0, prog_sources = [''// kernels/cast.cl''],
                                       prog_flags = ''-DInType=bool -DOutType=float''\<rparr>,
                    kernel_name = ''cast''\<rparr>, global_size = 1024, local_size = 32\<rparr>]\<rparr>"
  by (simp add: demo_backend2_def eval_more)

lemma demo2_runs:
  "fst (overlapScore demo_env 0 1 2 3 False demo_backend2) = Inr ()"
  "fst (learnCorrilation demo_env 0 0 1 2 demo_backend2) = Inr ()"
  "fst (sortSynapse demo_env 1 2 demo_backend2) = Inr ()"
  "fst (globalInhibition demo_env 3 0 demo_backend2) = Inr ()"
  "fst (cast demo_env 0 Float demo_backend2) = Inr 5"
  unfolding demo_backend2_eq
  by (simp_all add: eval_more)

lemma demo_names:
  "overlapScore_program_name demo_env 8192 32 False = ''overlapScore41''"
  "globalInhibition_program_name demo_env 8192 = ''overlapScore28''"
  "cast_program_name demo_env Bool Float = ''cast1d''"
  "learnCorrilation_program_name demo_env 8192 32 = ''learnCorrilation44''"
  "sortSynapse_program_name demo_env 32 = ''sortSynapse19''"
  by (simp_all add: eval_more)

lemma demo_params:
  "tensor_size (tensors demo_backend ! 0) = 8192" "tensor_size (tensors demo_backend2 ! 0) = 8192"
  "tensor_size (tensors demo_backend ! 3) = 8192" "tensor_size (tensors demo_backend2 ! 3) = 8192"
  "last (shape (tensors demo_backend ! 1)) = 32" "last (shape (tensors demo_backend2 ! 1)) = 32"
  "dtype (tensors demo_backend ! 0) = Bool" "dtype (tensors demo_backend2 ! 0) = Bool"
  unfolding demo_backend2_eq by (simp_all add: demo_backend_def tensor_size_def volume_def)

text \<open>
  The five operations on the demo backend and on the demo backend after a cast; and two
  input sizes whose flag strings hash differently.
\<close>

theorem C7_program_names_deterministic_witness:
  "fst (overlapScore demo_env 0 1 2 3 False demo_backend) = Inr ()
   \<and> fst (overlapScore demo_env 0 1 2 3 False demo_backend2) = Inr ()
   \<and> tensor_size (tensors demo_backend ! 0) = tensor_size (tensors demo_backend2 ! 0)
   \<and> last (shape (tensors demo_backend ! 1)) = last (shape (tensors demo_backend2 ! 1))
   \<and> registers demo_backend (snd (overlapScore demo_env 0 1 2 3 False demo_backend)) ''overlapScore41''
   \<and> registers demo_backend2 (snd (overlapScore demo_env 0 1 2 3 False demo_backend2)) ''overlapScore41''
   \<and> registers demo_backend (snd (globalInhibition demo_env 3 0 demo_backend)) ''overlapScore28''
   \<and> registers demo_backend2 (snd (globalInhibition demo_env 3 0 demo_backend2)) ''overlapScore28''
   \<and> registers demo_backend (snd (cast demo_env 0 Float demo_backend)) ''cast1d''
   \<and> registers demo_backend2 (snd (cast demo_env 0 Float demo_backend2)) ''cast1d''
   \<and> registers demo_backend (snd (learnCorrilation demo_env 0 0 1 2 demo_backend)) ''learnCorrilation44''
   \<and> registers demo_backend2 (snd (learnCorrilation demo_env 0 0 1 2 demo_backend2)) ''learnCorrilation44''
   \<and> registers demo_backend (snd (sortSynapse demo_env 1 2 demo_backend)) ''sortSynapse19''
   \<and> registers demo_backend2 (snd (sortSynapse demo_env 1 2 demo_backend2)) ''sortSynapse19''
   \<and> overlapScore_program_name demo_env 8192 32 False \<noteq> overlapScore_program_name demo_env 100 32 False"
proof -
  have ne: "std_hash demo_env (overlapScore_args 8192 32 False) \<noteq> std_hash demo_env (overlapScore_args 100 32 False)"
    by (simp add: eval_defs)
  show ?thesis
    using C7_program_names_deterministic [where env = demo_env and ?s1.0 = demo_backend
        and ?s2.0 = demo_backend2 and ?x1.0 = 0 and ?x2.0 = 0 and ?c1.0 = 1 and ?c2.0 = 1
        and ?p1.0 = 2 and ?p2.0 = 2 and ?y1.0 = 3 and ?y2.0 = 3 and h = False
        and ?l1.0 = 0 and ?l2.0 = 0 and toType = Float and ?r1.0 = 4 and ?r2.0 = 5
        and n = 8192 and m = 32 and n' = 100 and m' = 32 and h' = False]
      C7_program_names_deterministic [where env = demo_env and ?s1.0 = demo_backend
        and ?s2.0 = demo_backend2 and ?x1.0 = 3 and ?x2.0 = 3 and ?y1.0 = 0 and ?y2.0 = 0]
      ne
    by (simp add: demo_runs demo2_runs demo_names demo_params del: One_nat_def)
qed

text \<open>
  Claim C10. A call of \<^verbatim>\<open>globalInhibition\<close> that returns leaves a program cached under
  \<^verbatim>\<open>overlapScore\<close> followed by the hash of its flag string, and no call changes the
  cache under another name. The flag string is
  \<^verbatim>\<open>-DINPUT_SIZE=<n> -DMAX_INPUT_VALUE=2000\<close>; \<^verbatim>\<open>overlapScore\<close> uses the same
  prefix; the flag strings of the two operations always differ; and a name of
  \<^verbatim>\<open>globalInhibition\<close> equals a name of \<^verbatim>\<open>overlapScore\<close> exactly when the hashes
  of the two flag strings are equal.
\<close>

theorem C10_globalInhibition_shares_prefix:
  "(fst (globalInhibition env x y s) = Inr () \<longrightarrow>
      cached (snd (globalInhibition env x y s))
        (''overlapScore'' @ hash_string env (globalInhibition_args (tensor_size (tensors s ! x)))))
   \<and> (\<forall>q. q \<noteq> ''overlapScore'' @ hash_string env (globalInhibition_args (tensor_size (tensors s ! x)))
          \<longrightarrow> cached (snd (globalInhibition env x y s)) q = cached s q)
   \<and> globalInhibition_args n = ''-DINPUT_SIZE='' @ to_string_size_t n @ '' -DMAX_INPUT_VALUE=2000''
   \<and> overlapScore_program_name env m k h = ''overlapScore'' @ hash_string env (overlapScore_args m k h)
   \<and> globalInhibition_args n \<noteq> overlapScore_args m k h
   \<and> (''overlapScore'' @ hash_string env (globalInhibition_args n) = overlapScore_program_name env m k h)
       = (std_hash env (globalInhibition_args n) = std_hash env (overlapScore_args m k h))"
proof (intro conjI)
  have "globalInhibition env x y s = (fst (globalInhibition env x y s), snd (globalInhibition env x y s))"
    by simp
  from globalInhibition_registers [OF this]
  show "fst (globalInhibition env x y s) = Inr () \<longrightarrow>
      cached (snd (globalInhibition env x y s))
        (''overlapScore'' @ hash_string env (globalInhibition_args (tensor_size (tensors s ! x))))"
    and "\<forall>q. q \<noteq> ''overlapScore'' @ hash_string env (globalInhibition_args (tensor_size (tensors s ! x)))
          \<longrightarrow> cached (snd (globalInhibition env x y s)) q = cached s q"
    unfolding globalInhibition_program_name_def by blast+
  show "globalInhibition_args n = ''-DINPUT_SIZE='' @ to_string_size_t n @ '' -DMAX_INPUT_VALUE=2000''"
    by (simp add: globalInhibition_args_def to_string_def dec_digits.simps)
  show "overlapScore_program_name env m k h = ''overlapScore'' @ hash_string env (overlapScore_args m k h)"
    by (simp add: overlapScore_program_name_def)
  show "globalInhibition_args n \<noteq> overlapScore_args m k h"
    by (rule args_differ)
  show "(''overlapScore'' @ hash_string env (globalInhibition_args n) = overlapScore_program_name env m k h)
       = (std_hash env (globalInhibition_args n) = std_hash env (overlapScore_args m k h))"
    unfolding overlapScore_program_name_def by (rule program_name_eq_iff)
qed

text \<open>\<^verbatim>\<open>globalInhibition\<close> on the demo backend.\<close>

theorem C10_globalInhibition_shares_prefix_witness:
  "fst (globalInhibition demo_env 3 0 demo_backend) = Inr ()
   \<and> ''overlapScore'' @ hash_string demo_env (globalInhibition_args (tensor_size (tensors demo_backend ! 3)))
       = ''overlapScore28''
   \<and> cached (snd (globalInhibition demo_env 3 0 demo_backend)) ''overlapScore28''
   \<and> \<not> cached demo_backend ''overlapScore28''
   \<and> cached (snd (globalInhibition demo_env 3 0 demo_backend)) ''overlapScore41''
       = cached demo_backend ''overlapScore41''"
proof -
  have nm: "''overlapScore'' @ hash_string demo_env (globalInhibition_args (tensor_size (tensors demo_backend ! 3)))
       = ''overlapScore28''"
    using demo_names(2) by (simp add: demo_params globalInhibition_program_name_def)
  have nc: "\<not> cached demo_backend ''overlapScore28''"
    by (simp add: cached_def demo_backend_def empty_manager_def)
  from C10_globalInhibition_shares_prefix [of demo_env 3 0 demo_backend]
  have "fst (globalInhibition demo_env 3 0 demo_backend) = Inr () \<longrightarrow>
          cached (snd (globalInhibition demo_env 3 0 demo_backend)) ''overlapScore28''"
    and "\<forall>q. q \<noteq> ''overlapScore28'' \<longrightarrow> cached (snd (globalInhibition demo_env 3 0 demo_backend)) q = cached demo_backend q"
    unfolding nm by blast+
  then show ?thesis
    using nm nc demo_runs(4) by simp
qed

lemma createTensor_Inr:
  assumes "createTensor env shp dt d s = (Inr res, s')"
  shows "dt \<noteq> Unknown \<and> res = length (tensors s)
     \<and> tensors s' = tensors s @ [\<lparr>shape = shp, dtype = dt, buffer = length (buffers s)\<rparr>]
     \<and> buffers s' = buffers s @ [volume shp * dtypeToSize env dt]"
  using assms
  by (auto simp: createTensor_def Let_def allocBuffer_def new_tensor_def split: if_splits)

lemma copy_Inr:
  assumes "copy env x s = (Inr res, s')"
  shows "points_to s x \<and> res = length (tensors s)
     \<and> tensors s' = tensors s @ [\<lparr>shape = shape (tensors s ! x), dtype = dtype (tensors s ! x),
                                   buffer = length (buffers s)\<rparr>]
     \<and> buffers s' = buffers s @ [volume (shape (tensors s ! x)) * dtypeToSize env (dtype (tensors s ! x))]"
  using assms
  by (auto simp: copy_def Let_def allocBuffer_def new_tensor_def tensor_size_def split: if_splits)

lemma cast_Inr:
  assumes "cast env x toType s = (Inr res, s')"
  shows "points_to s x \<and> toType \<noteq> Unknown \<and> res = length (tensors s)
     \<and> tensors s' = tensors s @ [\<lparr>shape = shape (tensors s ! x), dtype = toType,
                                   buffer = length (buffers s)\<rparr>]
     \<and> buffers s' = buffers s @ [volume (shape (tensors s ! x)) * dtypeToSize env toType]"
  using assms
  by (auto simp: cast_def Let_def createTensor_def allocBuffer_def new_tensor_def
        enqueueNDRangeKernel_def
      split: if_splits prod.splits sum.splits option.splits)

lemma cast_returns_iff:
  "(\<exists>res s'. cast env x toType s = (Inr res, s')) =
     (points_to s x
      \<and> fst (compileFromFile env [kernel_root s @ ''cast.cl'']
                (cast_program_name env (dtype (tensors s ! x)) toType) [''cast''] False
                (cast_args env (dtype (tensors s ! x)) toType) (kernel_manager s)) = Inr ()
      \<and> kernel (snd (compileFromFile env [kernel_root s @ ''cast.cl'']
                (cast_program_name env (dtype (tensors s ! x)) toType) [''cast''] False
                (cast_args env (dtype (tensors s ! x)) toType) (kernel_manager s)))
            (cast_program_name env (dtype (tensors s ! x)) toType) ''cast'' \<noteq> None
      \<and> toType \<noteq> Unknown
      \<and> alloc_status env (volume (shape (tensors s ! x)) * dtypeToSize env toType) = CL_SUCCESS)"
  by (auto simp: cast_def Let_def createTensor_def allocBuffer_def new_tensor_def
        enqueueNDRangeKernel_def
      split: if_splits prod.splits sum.splits option.splits)

text \<open>
  Claim C8. When the tensors of the backend satisfy the invariant and \<^verbatim>\<open>cast\<close>
  returns, the result is a new handle with the shape of \<open>x\<close> and the target type, backed
  by the buffer the call allocated: a buffer that did not exist before, that is not the
  buffer of \<open>x\<close> nor of any other tensor, while \<open>x\<close> is as it was. And
  \<^verbatim>\<open>cast\<close> returns exactly when \<open>x\<close> is a tensor of the backend, the kernel compiles
  or is cached, the target type is not \<^verbatim>\<open>Unknown\<close> and the device grants the buffer.
\<close>

theorem C8_cast_returns_new_tensor:
  "(tensor_inv env s \<and> cast env x toType s = (Inr res, s') \<longrightarrow>
      points_to s x \<and> \<not> points_to s res \<and> points_to s' res
      \<and> shape (tensors s' ! res) = shape (tensors s ! x)
      \<and> dtype (tensors s' ! res) = toType
      \<and> buffer (tensors s' ! res) = length (buffers s)
      \<and> buffer (tensors s' ! res) < length (buffers s')
      \<and> buffer (tensors s' ! res) \<noteq> buffer (tensors s ! x)
      \<and> (\<forall>t \<in> set (tensors s). buffer t \<noteq> buffer (tensors s' ! res))
      \<and> tensors s' ! x = tensors s ! x)
   \<and> (\<exists>res s'. cast env x toType s = (Inr res, s')) =
     (points_to s x
      \<and> fst (compileFromFile env [kernel_root s @ ''cast.cl'']
                (cast_program_name env (dtype (tensors s ! x)) toType) [''cast''] False
                (cast_args env (dtype (tensors s ! x)) toType) (kernel_manager s)) = Inr ()
      \<and> kernel (snd (compileFromFile env [kernel_root s @ ''cast.cl'']
                (cast_program_name env (dtype (tensors s ! x)) toType) [''cast''] False
                (cast_args env (dtype (tensors s ! x)) toType) (kernel_manager s)))
            (cast_program_name env (dtype (tensors s ! x)) toType) ''cast'' \<noteq> None
      \<and> toType \<noteq> Unknown
      \<and> alloc_status env (volume (shape (tensors s ! x)) * dtypeToSize env toType) = CL_SUCCESS)"
proof (intro conjI impI; (elim conjE)?)
  assume inv: "tensor_inv env s" and c: "cast env x toType s = (Inr res, s')"
  note r = cast_Inr [OF c]
  from r have px: "x < length (tensors s)" by (simp add: points_to_def)
  then have "tensors s ! x \<in> set (tensors s)" by simp
  with inv have bx: "buffer (tensors s ! x) < length (buffers s)"
    unfolding tensor_inv_def by blast
  from r show "points_to s x" by simp
  from r show "\<not> points_to s res" by (simp add: points_to_def)
  from r show "points_to s' res" by (simp add: points_to_def)
  from r show "shape (tensors s' ! res) = shape (tensors s ! x)" by simp
  from r show "dtype (tensors s' ! res) = toType" by simp
  from r show "buffer (tensors s' ! res) = length (buffers s)" by simp
  from r show "buffer (tensors s' ! res) < length (buffers s')" by simp
  from r bx show "buffer (tensors s' ! res) \<noteq> buffer (tensors s ! x)" by simp
  from r inv show "\<forall>t \<in> set (tensors s). buffer t \<noteq> buffer (tensors s' ! res)"
    unfolding tensor_inv_def by auto
  from r px show "tensors s' ! x = tensors s ! x" by (simp add: nth_append)
next
  show "(\<exists>res s'. cast env x toType s = (Inr res, s')) =
     (points_to s x
      \<and> fst (compileFromFile env [kernel_root s @ ''cast.cl'']
                (cast_program_name env (dtype (tensors s ! x)) toType) [''cast''] False
                (cast_args env (dtype (tensors s ! x)) toType) (kernel_manager s)) = Inr ()
      \<and> kernel (snd (compileFromFile env [kernel_root s @ ''cast.cl'']
                (cast_program_name env (dtype (tensors s ! x)) toType) [''cast''] False
                (cast_args env (dtype (tensors s ! x)) toType) (kernel_manager s)))
            (cast_program_name env (dtype (tensors s ! x)) toType) ''cast'' \<noteq> None
      \<and> toType \<noteq> Unknown
      \<and> alloc_status env (volume (shape (tensors s ! x)) * dtypeToSize env toType) = CL_SUCCESS)"
    by (rule cast_returns_iff)
qed

lemma tensor_inv_demo: "tensor_inv demo_env demo_backend"
  by (simp add: tensor_inv_def spec_byte_size_def nat_volume_def demo_backend_def demo_env_def)

text \<open>The input of the demo backend cast to \<^verbatim>\<open>Float\<close>.\<close>

theorem C8_cast_returns_new_tensor_witness:
  "tensor_inv demo_env demo_backend
   \<and> cast demo_env 0 Float demo_backend = (Inr 4, demo_backend2)
   \<and> points_to demo_backend 0 \<and> \<not> points_to demo_backend 4 \<and> points_to demo_backend2 4
   \<and> shape (tensors demo_backend2 ! 4) = [8192]
   \<and> dtype (tensors demo_backend2 ! 4) = Float
   \<and> buffer (tensors demo_backend2 ! 4) = 4
   \<and> buffer (tensors demo_backend ! 0) = 0"
proof -
  have c: "cast demo_env 0 Float demo_backend = (Inr 4, demo_backend2)"
    using demo_runs(5) by (simp add: demo_backend2_def prod_eq_iff)
  have "shape (tensors demo_backend ! 0) = [8192]" "length (buffers demo_backend) = 4"
    "buffer (tensors demo_backend ! 0) = 0"
    by (simp_all add: demo_backend_def)
  then show ?thesis
    using C8_cast_returns_new_tensor [of demo_env demo_backend 0 Float 4 demo_backend2]
      tensor_inv_demo c
    by simp
qed

text \<open>
  Claim C9, as amended. A backend without tensors satisfies the invariant. From a backend
  that satisfies it, any sequence of calls (returning or raising) leads to a backend that
  satisfies it, in which every handle that existed still exists with the same shape, element
  type and buffer, and the buffer has the byte size it had. And the handle that
  \<^verbatim>\<open>createTensor\<close>, \<^verbatim>\<open>copy\<close> or \<^verbatim>\<open>cast\<close> returns is new, and its buffer has
  \<open>volume(shape) * size_of(dtype)\<close> bytes whenever that product is below \<open>2^64\<close>.
\<close>

theorem C9_tensor_buffer_size_invariant:
  "(tensors s = [] \<longrightarrow> tensor_inv env s)
   \<and> (tensor_inv env s \<longrightarrow>
        tensor_inv env (run_calls env s calls)
        \<and> (\<forall>h. points_to s h \<longrightarrow>
              points_to (run_calls env s calls) h
              \<and> tensors (run_calls env s calls) ! h = tensors s ! h
              \<and> buffers (run_calls env s calls) ! buffer (tensors s ! h)
                  = buffers s ! buffer (tensors s ! h)))
   \<and> (createTensor env shp dt d s = (Inr res, s') \<longrightarrow>
        points_to s' res \<and> \<not> points_to s res
        \<and> shape (tensors s' ! res) = shp \<and> dtype (tensors s' ! res) = dt
        \<and> buffer (tensors s' ! res) < length (buffers s')
        \<and> (spec_byte_size env shp dt < 2 ^ 64 \<longrightarrow>
             unat (buffers s' ! buffer (tensors s' ! res)) = spec_byte_size env shp dt))
   \<and> (copy env x s = (Inr res, s') \<longrightarrow>
        points_to s' res \<and> \<not> points_to s res
        \<and> shape (tensors s' ! res) = shape (tensors s ! x)
        \<and> dtype (tensors s' ! res) = dtype (tensors s ! x)
        \<and> buffer (tensors s' ! res) < length (buffers s')
        \<and> (spec_byte_size env (shape (tensors s ! x)) (dtype (tensors s ! x)) < 2 ^ 64 \<longrightarrow>
             unat (buffers s' ! buffer (tensors s' ! res))
               = spec_byte_size env (shape (tensors s ! x)) (dtype (tensors s ! x))))
   \<and> (cast env x toType s = (Inr res, s') \<longrightarrow>
        points_to s' res \<and> \<not> points_to s res
        \<and> shape (tensors s' ! res) = shape (tensors s ! x)
        \<and> dtype (tensors s' ! res) = toType
        \<and> buffer (tensors s' ! res) < length (buffers s')
        \<and> (spec_byte_size env (shape (tensors s ! x)) toType < 2 ^ 64 \<longrightarrow>
             unat (buffers s' ! buffer (tensors s' ! res))
               = spec_byte_size env (shape (tensors s ! x)) toType))"
proof (intro conjI impI allI)
  assume "tensors s = []"
  then show "tensor_inv env s" by (simp add: tensor_inv_def)
next
  assume inv: "tensor_inv env s"
  have safe: "safe env s (run_calls env s calls)" by (rule safe_run_calls)
  with inv show "tensor_inv env (run_calls env s calls)" by (simp add: safe_def)
  fix h
  assume h: "points_to s h"
  from safe have g: "grows s (run_calls env s calls)" by (simp add: safe_def)
  from grows_frame [OF g inv h]
  show "points_to (run_calls env s calls) h"
    and "tensors (run_calls env s calls) ! h = tensors s ! h"
    and "buffers (run_calls env s calls) ! buffer (tensors s ! h) = buffers s ! buffer (tensors s ! h)"
    by simp_all
next
  assume "createTensor env shp dt d s = (Inr res, s')"
  note r = createTensor_Inr [OF this]
  from r show "points_to s' res" "\<not> points_to s res"
    "shape (tensors s' ! res) = shp" "dtype (tensors s' ! res) = dt"
    "buffer (tensors s' ! res) < length (buffers s')"
    by (simp_all add: points_to_def)
  assume "spec_byte_size env shp dt < 2 ^ 64"
  with r show "unat (buffers s' ! buffer (tensors s' ! res)) = spec_byte_size env shp dt"
    by (simp add: unat_byte_size)
next
  assume "copy env x s = (Inr res, s')"
  note r = copy_Inr [OF this]
  from r show "points_to s' res" "\<not> points_to s res"
    "shape (tensors s' ! res) = shape (tensors s ! x)"
    "dtype (tensors s' ! res) = dtype (tensors s ! x)"
    "buffer (tensors s' ! res) < length (buffers s')"
    by (simp_all add: points_to_def)
  assume "spec_byte_size env (shape (tensors s ! x)) (dtype (tensors s ! x)) < 2 ^ 64"
  with r show "unat (buffers s' ! buffer (tensors s' ! res))
               = spec_byte_size env (shape (tensors s ! x)) (dtype (tensors s ! x))"
    by (simp add: unat_byte_size)
next
  assume "cast env x toType s = (Inr res, s')"
  note r = cast_Inr [OF this]
  from r show "points_to s' res" "\<not> points_to s res"
    "shape (tensors s' ! res) = shape (tensors s ! x)"
    "dtype (tensors s' ! res) = toType"
    "buffer (tensors s' ! res) < length (buffers s')"
    by (simp_all add: points_to_def)
  assume "spec_byte_size env (shape (tensors s ! x)) toType < 2 ^ 64"
  with r show "unat (buffers s' ! buffer (tensors s' ! res))
               = spec_byte_size env (shape (tensors s ! x)) toType"
    by (simp add: unat_byte_size)
qed

text \<open>Seven calls on the demo backend, and each of the three producers on it.\<close>

theorem C9_tensor_buffer_size_invariant_witness:
  "tensor_inv demo_env demo_backend
   \<and> tensor_inv demo_env (run_calls demo_env demo_backend demo_calls)
   \<and> points_to demo_backend 1
   \<and> points_to (run_calls demo_env demo_backend demo_calls) 1
   \<and> tensors (run_calls demo_env demo_backend demo_calls) ! 1
       = \<lparr>shape = [8192, 32], dtype = Int32, buffer = 1\<rparr>
   \<and> buffers (run_calls demo_env demo_backend demo_calls) ! 1 = 1048576
   \<and> createTensor demo_env [10] Float True demo_backend
       = (Inr 4, snd (createTensor demo_env [10] Float True demo_backend))
   \<and> spec_byte_size demo_env [10] Float = 40
   \<and> unat (buffers (snd (createTensor demo_env [10] Float True demo_backend))
        ! buffer (tensors (snd (createTensor demo_env [10] Float True demo_backend)) ! 4)) = 40
   \<and> copy demo_env 1 demo_backend = (Inr 4, snd (copy demo_env 1 demo_backend))
   \<and> spec_byte_size demo_env [8192, 32] Int32 = 1048576
   \<and> unat (buffers (snd (copy demo_env 1 demo_backend))
        ! buffer (tensors (snd (copy demo_env 1 demo_backend)) ! 4)) = 1048576
   \<and> cast demo_env 0 Float demo_backend = (Inr 4, demo_backend2)
   \<and> spec_byte_size demo_env [8192] Float = 32768
   \<and> unat (buffers demo_backend2 ! buffer (tensors demo_backend2 ! 4)) = 32768"
proof -
  have ct: "createTensor demo_env [10] Float True demo_backend
       = (Inr 4, snd (createTensor demo_env [10] Float True demo_backend))"
    by (simp add: prod_eq_iff eval_more)
  have cp: "copy demo_env 1 demo_backend = (Inr 4, snd (copy demo_env 1 demo_backend))"
    by (simp add: prod_eq_iff eval_more)
  have ca: "cast demo_env 0 Float demo_backend = (Inr 4, demo_backend2)"
    using demo_runs(5) by (simp add: demo_backend2_def prod_eq_iff)
  have v: "spec_byte_size demo_env [10] Float = 40"
    "spec_byte_size demo_env [8192, 32] Int32 = 1048576"
    "spec_byte_size demo_env [8192] Float = 32768"
    by (simp_all add: spec_byte_size_def nat_volume_def demo_env_def)
  have t: "tensors demo_backend ! 1 = \<lparr>shape = [8192, 32], dtype = Int32, buffer = 1\<rparr>"
    "tensors demo_backend ! 0 = \<lparr>shape = [8192], dtype = Bool, buffer = 0\<rparr>"
    "points_to demo_backend 1" "buffers demo_backend ! 1 = 1048576"
    by (simp_all add: demo_backend_def points_to_def)
  let ?s1 = "snd (createTensor demo_env [10] Float True demo_backend)"
  let ?s2 = "snd (copy demo_env 1 demo_backend)"
  let ?r = "run_calls demo_env demo_backend demo_calls"
  note T = C9_tensor_buffer_size_invariant [of demo_backend demo_env demo_calls]
  from T [of "[10]" Float True 4 ?s1] tensor_inv_demo
  have inv: "tensor_inv demo_env ?r"
    and frame: "\<forall>h. points_to demo_backend h \<longrightarrow>
              points_to ?r h \<and> tensors ?r ! h = tensors demo_backend ! h
              \<and> buffers ?r ! buffer (tensors demo_backend ! h)
                  = buffers demo_backend ! buffer (tensors demo_backend ! h)"
    by blast+
  from T [of "[10]" Float True 4 ?s1] ct
  have "spec_byte_size demo_env [10] Float < 2 ^ 64 \<longrightarrow>
      unat (buffers ?s1 ! buffer (tensors ?s1 ! 4)) = spec_byte_size demo_env [10] Float"
    by blast
  then have b1: "unat (buffers ?s1 ! buffer (tensors ?s1 ! 4)) = 40"
    unfolding v by simp
  from T [of _ _ _ 4 ?s2 1] cp
  have "spec_byte_size demo_env (shape (tensors demo_backend ! 1)) (dtype (tensors demo_backend ! 1)) < 2 ^ 64 \<longrightarrow>
      unat (buffers ?s2 ! buffer (tensors ?s2 ! 4))
        = spec_byte_size demo_env (shape (tensors demo_backend ! 1)) (dtype (tensors demo_backend ! 1))"
    by blast
  then have b2: "unat (buffers ?s2 ! buffer (tensors ?s2 ! 4)) = 1048576"
    unfolding t by (simp add: v)
  from T [of _ _ _ 4 demo_backend2 0 Float] ca
  have "spec_byte_size demo_env (shape (tensors demo_backend ! 0)) Float < 2 ^ 64 \<longrightarrow>
      unat (buffers demo_backend2 ! buffer (tensors demo_backend2 ! 4))
        = spec_byte_size demo_env (shape (tensors demo_backend ! 0)) Float"
    by blast
  then have b3: "unat (buffers demo_backend2 ! buffer (tensors demo_backend2 ! 4)) = 32768"
    unfolding t by (simp add: v)
  from frame t(3) have f1: "points_to ?r 1" "tensors ?r ! 1 = tensors demo_backend ! 1"
    "buffers ?r ! buffer (tensors demo_backend ! 1) = buffers demo_backend ! buffer (tensors demo_backend ! 1)"
    by blast+
  from f1(3) have f2: "buffers ?r ! 1 = 1048576"
    unfolding t(1) by (simp add: t(4) del: One_nat_def)
  from f1(2) have f3: "tensors ?r ! 1 = \<lparr>shape = [8192, 32], dtype = Int32, buffer = 1\<rparr>"
    unfolding t(1) .
  show ?thesis
    using tensor_inv_demo inv t(3) f1(1) f3 f2 ct cp ca b1 b2 b3 v
    by (simp del: One_nat_def)
qed

text \<open>
  Claim C9 as stated fails when the product does not fit in \<^verbatim>\<open>size_t\<close>.
  \<^verbatim>\<open>createTensor\<close> with shape \<open>[2^62 + 1024]\<close> and element type \<^verbatim>\<open>Float\<close> returns a
  handle whose buffer has 4096 bytes, where \<open>volume(shape) * size_of(dtype)\<close> is
  \<open>2^64 + 4096\<close>: line 68 computes the product in \<^verbatim>\<open>size_t\<close>.
\<close>

theorem C9_wrapped_size_counterexample:
  "fst (createTensor demo_env [4611686018427388928] Float False demo_backend) = Inr 4
   \<and> shape (tensors (snd (createTensor demo_env [4611686018427388928] Float False demo_backend)) ! 4)
       = [4611686018427388928]
   \<and> dtype (tensors (snd (createTensor demo_env [4611686018427388928] Float False demo_backend)) ! 4)
       = Float
   \<and> unat (buffers (snd (createTensor demo_env [4611686018427388928] Float False demo_backend))
        ! buffer (tensors (snd (createTensor demo_env [4611686018427388928] Float False demo_backend)) ! 4))
       = 4096
   \<and> spec_byte_size demo_env [4611686018427388928] Float = 18446744073709555712"
  by (simp add: eval_more spec_byte_size_def nat_volume_def)

end
